theory Spec2Isabelle
  imports Main "HOL-Library.Sublist"
begin

section \<open>Python values and faults\<close>

text \<open>
  The values that travel through the scripts are the ones \<open>json.loads\<close> produces:
  \<open>None\<close>, booleans, unbounded integers, strings, lists and dictionaries.  A dictionary
  is kept as an association list read with \<open>map_of\<close>.  JSON numbers with a fraction or an
  exponent (Python floats) are left out of the value type: IEEE arithmetic is not part
  of this development, and every statement below is about float-free values.
\<close>

datatype json =
    JNull
  | JBool bool
  | JInt int
  | JStr string
  | JArr "json list"
  | JObj "(string \<times> json) list"

text \<open>
  Exceptions are values.  The built-in exceptions that the scripts' own statements can
  raise have a constructor each; an exception raised inside a collaborator (the Session,
  the Model API, a context manager) is \<open>Raised\<close> with the name of its class.
\<close>

datatype error =
    AttributeError
  | IndexError
  | TypeError
  | JSONDecodeError
  | Raised string

text \<open>
  The error names of the specification's taxonomy do not occur in the source.  They are
  given here as names of exception classes so that statements can mention them.
\<close>

definition InvalidArguments :: error where
  "InvalidArguments = Raised ''InvalidArguments''"

definition UnknownTool :: error where
  "UnknownTool = Raised ''UnknownTool''"

text \<open>\<open>d.get(k, default)\<close> on a dictionary.\<close>

definition dict_get :: "(string \<times> json) list \<Rightarrow> string \<Rightarrow> json \<Rightarrow> json" where
  "dict_get d k dflt = (case map_of d k of None \<Rightarrow> dflt | Some v \<Rightarrow> v)"

text \<open>
  Python's \<open>bool\<close> is a subclass of \<open>int\<close>: \<open>True\<close> counts as 1 and \<open>False\<close> as 0 in
  arithmetic.
\<close>

fun as_int :: "json \<Rightarrow> int option" where
  "as_int (JInt i) = Some i"
| "as_int (JBool b) = Some (if b then 1 else 0)"
| "as_int _ = None"

text \<open>
  \<open>a * b\<close>: the product of two integers, the repetition of a string or of a list by an
  integer (empty when the count is not positive), and \<open>TypeError\<close> for every other
  pair of operands.
\<close>

definition py_mul :: "json \<Rightarrow> json \<Rightarrow> error + json" where
  "py_mul a b =
     (case (as_int a, as_int b) of
        (Some x, Some y) \<Rightarrow> Inr (JInt (x * y))
      | (Some n, None) \<Rightarrow>
          (case b of
             JStr s \<Rightarrow> Inr (JStr (concat (replicate (nat n) s)))
           | JArr xs \<Rightarrow> Inr (JArr (concat (replicate (nat n) xs)))
           | _ \<Rightarrow> Inl TypeError)
      | (None, Some n) \<Rightarrow>
          (case a of
             JStr s \<Rightarrow> Inr (JStr (concat (replicate (nat n) s)))
           | JArr xs \<Rightarrow> Inr (JArr (concat (replicate (nat n) xs)))
           | _ \<Rightarrow> Inl TypeError)
      | (None, None) \<Rightarrow> Inl TypeError)"


section \<open>The multiply server (\<^verbatim>\<open>1-MCP-Demo/mcp_server.py\<close>)\<close>

text \<open>
  \<open>multiply\<close> is a plain function: line 11 calls \<open>mcp.tool()\<close> without applying the
  decorator it returns, so nothing is registered on the \<open>FastMCP\<close> instance.
\<close>

definition multiply :: "json \<Rightarrow> json \<Rightarrow> error + json" where
  "multiply a b = py_mul a b"

text \<open>
  The handler of \<open>POST /shwa/mcp/multiply\<close>.  Its parameter \<open>data\<close> is the request body,
  a dictionary.
\<close>

definition call_multiply :: "(string \<times> json) list \<Rightarrow> error + (string \<times> json) list" where
  "call_multiply data =
     (case multiply (dict_get data ''a'' (JInt 0)) (dict_get data ''b'' (JInt 0)) of
        Inl e \<Rightarrow> Inl e
      | Inr v \<Rightarrow> Inr [(''result'', v)])"

text \<open>
  The message of \<open>GET /\<close>; its last four bytes are the UTF-8 encoding of the cup
  character that ends the source's literal.
\<close>

definition welcome_message :: string where
  "welcome_message = ''Welcome To MCP Demo By Shwa '' @ [CHR 0xF0, CHR 0x9F, CHR 0xA5, CHR 0xA4]"

definition home :: "(string \<times> json) list" where
  "home = [(''message'', JStr welcome_message)]"

text \<open>
  What the process holds between requests: the \<open>FastMCP\<close> instance (its name and its
  registered tools) and the routes of the \<open>FastAPI\<close> application.
\<close>

record server =
  mcp_name :: string
  mcp_tools :: "string list"
  routes :: "(string \<times> string) list"

definition module_state :: server where
  "module_state =
     \<lparr>mcp_name = ''Demo MCP Server'', mcp_tools = [],
      routes = [(''POST'', ''/shwa/mcp/multiply''), (''GET'', ''/'')]\<rparr>"

datatype request =
    Post_multiply "(string \<times> json) list"
  | Get_home

text \<open>
  A response is a status code and a body.  A handler that returns gives status 200 with
  its dictionary as the body; an exception that leaves the handler is not caught by any
  code of the script, and the framework answers with status 500.
\<close>

record response =
  status_code :: nat
  body :: "(string \<times> json) list option"

definition respond :: "error + (string \<times> json) list \<Rightarrow> response" where
  "respond r =
     (case r of
        Inr d \<Rightarrow> \<lparr>status_code = 200, body = Some d\<rparr>
      | Inl e \<Rightarrow> \<lparr>status_code = 500, body = None\<rparr>)"

definition handle :: "server \<Rightarrow> request \<Rightarrow> response \<times> server" where
  "handle srv rq =
     (case rq of
        Post_multiply data \<Rightarrow> (respond (call_multiply data), srv)
      | Get_home \<Rightarrow> (respond (Inr home), srv))"

text \<open>The server answers the requests it receives one after the other.\<close>

fun serve :: "server \<Rightarrow> request list \<Rightarrow> response list \<times> server" where
  "serve srv [] = ([], srv)"
| "serve srv (rq # rqs) =
     (case handle srv rq of
        (rsp, srv') \<Rightarrow> (case serve srv' rqs of (rsps, srv'') \<Rightarrow> (rsp # rsps, srv'')))"


section \<open>The multiply client (\<^verbatim>\<open>1-MCP-Demo/mcp_client.py\<close>)\<close>

text \<open>The three lines the client can print.\<close>

datatype printed =
    Called_successfully
  | Result json
  | Error_accessing

text \<open>
  \<open>test_multiply(a, b)\<close> posts \<open>{"a": a, "b": b}\<close> and prints according to the status code.
  \<open>response.json()["result"]\<close> raises \<open>KeyError\<close> when the key is absent; the server
  above always sends it with status 200.
\<close>

definition test_multiply :: "server \<Rightarrow> json \<Rightarrow> json \<Rightarrow> printed list" where
  "test_multiply srv a b =
     (let rsp = fst (handle srv (Post_multiply [(''a'', a), (''b'', b)])) in
      if status_code rsp = 200 then
        (case body rsp of
           Some d \<Rightarrow> (case map_of d ''result'' of
                        Some v \<Rightarrow> [Called_successfully, Result v]
                      | None \<Rightarrow> [Called_successfully])
         | None \<Rightarrow> [Called_successfully])
      else [Error_accessing])"


section \<open>The collaborators of the orchestrators\<close>

text \<open>
  A tool as the Session's \<open>list_tools\<close> returns it; \<open>description\<close> is optional there.
\<close>

record tool =
  tool_name :: string
  tool_description :: "string option"
  tool_inputSchema :: json

text \<open>
  A tool call of an assistant message.  The source reads \<open>tool_call.id\<close>,
  \<open>tool_call.function.name\<close> and \<open>tool_call.function.arguments\<close>; the last is a string of
  JSON text.
\<close>

record tool_call =
  call_id :: string
  call_name :: string
  call_arguments :: string

text \<open>\<open>response.choices[i].message\<close>: either field may be \<open>None\<close>.\<close>

record assistant_message =
  content :: "string option"
  tool_calls :: "tool_call list option"

text \<open>
  The entries of a \<open>messages\<close> list: the user dictionary, the assistant message object,
  and the tool dictionary with its \<open>tool_call_id\<close> and \<open>content\<close>.
\<close>

datatype chat_message =
    User string
  | Assistant assistant_message
  | Tool string string

text \<open>
  The keyword arguments of \<open>chat.completions.create\<close>; \<open>None\<close> stands for an argument
  that the call does not pass.
\<close>

record chat_request =
  req_model :: string
  req_messages :: "chat_message list"
  req_tools :: "json list option"
  req_tool_choice :: "string option"

text \<open>
  A content block of a tool result.  Only a text block has the attribute \<open>text\<close>.
\<close>

datatype content_block =
    TextContent string
  | OtherContent

text \<open>
  The context managers that the client enters: the pipe to the server process started
  on a script path, and the client session on that pipe.
\<close>

datatype ctx =
    Stdio_client string
  | Client_session

text \<open>
  The calls that leave the scripts, in the order they are made.  A run is observed
  through the list of these events.
\<close>

datatype event =
    Entered ctx
  | Enter_failed ctx
  | Exited ctx
  | Initialize
  | List_tools
  | Call_tool string json
  | Add "(string \<times> json) list"
  | Create chat_request

text \<open>
  Everything outside the source files is a parameter: the constructor of the Groq
  client, the context managers, the Session's methods, the Model API, \<open>json.loads\<close>,
  the imported function \<open>add\<close> (called as \<open>add(**tool_args)\<close>) and the built-in \<open>str\<close>.
  A collaborator answers from the events so far, so a second call with the same
  arguments may be answered differently.  \<open>Some err\<close> or \<open>Inl err\<close> is a raised
  exception; \<open>json_loads\<close> gives \<open>None\<close> for text that is not JSON.
\<close>

record env =
  new_groq :: "error option"
  enter :: "event list \<Rightarrow> ctx \<Rightarrow> error option"
  exit_ctx :: "event list \<Rightarrow> ctx \<Rightarrow> error option"
  initialize :: "event list \<Rightarrow> error option"
  list_tools :: "event list \<Rightarrow> error + tool list"
  call_tool :: "event list \<Rightarrow> string \<Rightarrow> json \<Rightarrow> error + content_block list"
  completions_create :: "event list \<Rightarrow> chat_request \<Rightarrow> error + assistant_message list"
  json_loads :: "string \<Rightarrow> json option"
  add :: "event list \<Rightarrow> (string \<times> json) list \<Rightarrow> error + json"
  str :: "json \<Rightarrow> string"

text \<open>\<open>response.choices[0].message\<close>.\<close>

definition first_choice :: "assistant_message list \<Rightarrow> error + assistant_message" where
  "first_choice choices = (case choices of [] \<Rightarrow> Inl IndexError | m # _ \<Rightarrow> Inr m)"

text \<open>The truth value of \<open>message.tool_calls\<close>: \<open>None\<close> and the empty list are false.\<close>

definition requested :: "assistant_message \<Rightarrow> tool_call list" where
  "requested m = (case tool_calls m of None \<Rightarrow> [] | Some tcs \<Rightarrow> tcs)"


section \<open>The session client (\<^verbatim>\<open>3-LLM-Integration/client.py\<close>)\<close>

text \<open>
  The fields of \<open>MCPGroqClient\<close> that the methods read: \<open>session\<close> (\<open>None\<close> until
  \<open>connect_to_server\<close> sets it), the contexts on \<open>exit_stack\<close> (innermost first) and
  \<open>model\<close>.  \<open>trace\<close> is not a field of the class: it records the events of the run.
  Console output is not modelled.
\<close>

record client =
  session :: "ctx option"
  exit_stack :: "ctx list"
  model :: string
  trace :: "event list"

definition new_client :: client where
  "new_client =
     \<lparr>session = None, exit_stack = [], model = ''llama-3.3-70b-versatile'', trace = []\<rparr>"

text \<open>
  \<open>exit_stack.enter_async_context(cm)\<close>: the context is pushed only when entering it
  succeeds.
\<close>

definition enter_async_context :: "env \<Rightarrow> ctx \<Rightarrow> client \<Rightarrow> (error + unit) \<times> client" where
  "enter_async_context e c s =
     (case enter e (trace s) c of
        Some err \<Rightarrow> (Inl err, s\<lparr>trace := trace s @ [Enter_failed c]\<rparr>)
      | None \<Rightarrow> (Inr (), s\<lparr>exit_stack := c # exit_stack s, trace := trace s @ [Entered c]\<rparr>))"

definition connect_to_server :: "env \<Rightarrow> string \<Rightarrow> client \<Rightarrow> (error + unit) \<times> client" where
  "connect_to_server e server_script_path s =
     (case enter_async_context e (Stdio_client server_script_path) s of
        (Inl err, s1) \<Rightarrow> (Inl err, s1)
      | (Inr _, s1) \<Rightarrow>
          (case enter_async_context e Client_session s1 of
             (Inl err, s2) \<Rightarrow> (Inl err, s2)
           | (Inr _, s2) \<Rightarrow>
               (let s3 = s2\<lparr>session := Some Client_session\<rparr>;
                    s4 = s3\<lparr>trace := trace s3 @ [Initialize]\<rparr> in
                case initialize e (trace s3) of
                  Some err \<Rightarrow> (Inl err, s4)
                | None \<Rightarrow>
                    (let s5 = s4\<lparr>trace := trace s4 @ [List_tools]\<rparr> in
                     case list_tools e (trace s4) of
                       Inl err \<Rightarrow> (Inl err, s5)
                     | Inr tools_result \<Rightarrow> (Inr (), s5)))))"

text \<open>The dictionary that the comprehension of \<open>get_mcp_tools\<close> builds for one tool.\<close>

definition groq_tool :: "tool \<Rightarrow> json" where
  "groq_tool t =
     JObj [(''type'', JStr ''function''),
           (''function'',
            JObj [(''name'', JStr (tool_name t)),
                  (''description'',
                   (case tool_description t of None \<Rightarrow> JNull | Some d \<Rightarrow> JStr d)),
                  (''parameters'', tool_inputSchema t)])]"

text \<open>
  \<open>self.session.list_tools()\<close> raises \<open>AttributeError\<close> while \<open>self.session\<close> is \<open>None\<close>.
\<close>

definition get_mcp_tools :: "env \<Rightarrow> client \<Rightarrow> (error + json list) \<times> client" where
  "get_mcp_tools e s =
     (case session s of
        None \<Rightarrow> (Inl AttributeError, s)
      | Some _ \<Rightarrow>
          (let s1 = s\<lparr>trace := trace s @ [List_tools]\<rparr> in
           case list_tools e (trace s) of
             Inl err \<Rightarrow> (Inl err, s1)
           | Inr tools_result \<Rightarrow> (Inr (map groq_tool tools_result), s1)))"

text \<open>One call of \<open>self.groq_client.chat.completions.create\<close>.\<close>

definition create :: "env \<Rightarrow> chat_request \<Rightarrow> client \<Rightarrow> (error + assistant_message list) \<times> client" where
  "create e req s = (completions_create e (trace s) req, s\<lparr>trace := trace s @ [Create req]\<rparr>)"

text \<open>
  The loop over \<open>assistant_message.tool_calls\<close>.  Each round looks up
  \<open>self.session.call_tool\<close>, decodes the arguments, awaits the call, reads
  \<open>result.content[0].text\<close> and appends the tool message.  An exception in any of these
  leaves the loop and the method.
\<close>

fun run_tool_calls ::
  "env \<Rightarrow> tool_call list \<Rightarrow> chat_message list \<Rightarrow> client \<Rightarrow> (error + chat_message list) \<times> client"
where
  "run_tool_calls e [] messages s = (Inr messages, s)"
| "run_tool_calls e (tc # tcs) messages s =
     (case session s of
        None \<Rightarrow> (Inl AttributeError, s)
      | Some _ \<Rightarrow>
          (case json_loads e (call_arguments tc) of
             None \<Rightarrow> (Inl JSONDecodeError, s)
           | Some arguments \<Rightarrow>
               (let s1 = s\<lparr>trace := trace s @ [Call_tool (call_name tc) arguments]\<rparr> in
                case call_tool e (trace s) (call_name tc) arguments of
                  Inl err \<Rightarrow> (Inl err, s1)
                | Inr [] \<Rightarrow> (Inl IndexError, s1)
                | Inr (OtherContent # _) \<Rightarrow> (Inl AttributeError, s1)
                | Inr (TextContent text # _) \<Rightarrow>
                    run_tool_calls e tcs (messages @ [Tool (call_id tc) text]) s1)))"

text \<open>The two requests of \<open>process_query\<close>.\<close>

definition initial_request :: "client \<Rightarrow> string \<Rightarrow> json list \<Rightarrow> chat_request" where
  "initial_request s query tools =
     \<lparr>req_model = model s, req_messages = [User query], req_tools = Some tools,
      req_tool_choice = Some ''auto''\<rparr>"

definition final_request :: "client \<Rightarrow> chat_message list \<Rightarrow> json list \<Rightarrow> chat_request" where
  "final_request s messages tools =
     \<lparr>req_model = model s, req_messages = messages, req_tools = Some tools,
      req_tool_choice = Some ''none''\<rparr>"

text \<open>
  \<open>process_query\<close> returns \<open>message.content\<close>, which is \<open>None\<close> when the Model sends no
  text.
\<close>

definition process_query :: "env \<Rightarrow> string \<Rightarrow> client \<Rightarrow> (error + string option) \<times> client" where
  "process_query e query s =
     (case get_mcp_tools e s of
        (Inl err, s1) \<Rightarrow> (Inl err, s1)
      | (Inr tools, s1) \<Rightarrow>
          (case create e (initial_request s1 query tools) s1 of
             (Inl err, s2) \<Rightarrow> (Inl err, s2)
           | (Inr choices, s2) \<Rightarrow>
               (case first_choice choices of
                  Inl err \<Rightarrow> (Inl err, s2)
                | Inr assistant_message \<Rightarrow>
                    (if requested assistant_message \<noteq> [] then
                       (case run_tool_calls e (requested assistant_message)
                               [User query, Assistant assistant_message] s2 of
                          (Inl err, s3) \<Rightarrow> (Inl err, s3)
                        | (Inr messages, s3) \<Rightarrow>
                            (case create e (final_request s3 messages tools) s3 of
                               (Inl err, s4) \<Rightarrow> (Inl err, s4)
                             | (Inr final_choices, s4) \<Rightarrow>
                                 (case first_choice final_choices of
                                    Inl err \<Rightarrow> (Inl err, s4)
                                  | Inr final_message \<Rightarrow> (Inr (content final_message), s4))))
                     else (Inr (content assistant_message), s2)))))"

text \<open>
  \<open>exit_stack.aclose()\<close> leaves the contexts innermost first.  An exception raised by
  one exit does not stop the others; the last one raised is the one that propagates.
\<close>

fun aclose :: "env \<Rightarrow> ctx list \<Rightarrow> event list \<Rightarrow> error option \<Rightarrow> error option \<times> event list" where
  "aclose e [] tr pending = (pending, tr)"
| "aclose e (c # cs) tr pending =
     (case exit_ctx e tr c of
        None \<Rightarrow> aclose e cs (tr @ [Exited c]) pending
      | Some err \<Rightarrow> aclose e cs (tr @ [Exited c]) (Some err))"

definition cleanup :: "env \<Rightarrow> client \<Rightarrow> (error + unit) \<times> client" where
  "cleanup e s =
     (case aclose e (exit_stack s) (trace s) None of
        (pending, tr) \<Rightarrow>
          ((case pending of None \<Rightarrow> Inr () | Some err \<Rightarrow> Inl err),
           s\<lparr>exit_stack := [], trace := tr\<rparr>))"

text \<open>The statements between \<open>try\<close> and \<open>finally\<close> in \<open>main\<close>.\<close>

definition try_block :: "env \<Rightarrow> client \<Rightarrow> (error + string option) \<times> client" where
  "try_block e s =
     (case connect_to_server e ''server.py'' s of
        (Inl err, s1) \<Rightarrow> (Inl err, s1)
      | (Inr _, s1) \<Rightarrow> process_query e ''What is our company's vacation policy?'' s1)"

text \<open>
  \<open>main\<close>: the client is constructed before the \<open>try\<close>; the \<open>finally\<close> clause runs
  \<open>cleanup\<close> after the block however it ends, and an exception of \<open>cleanup\<close> replaces the
  outcome of the block.  The result is the response that \<open>main\<close> prints.
\<close>

definition main :: "env \<Rightarrow> (error + string option) \<times> client" where
  "main e =
     (case new_groq e of
        Some err \<Rightarrow> (Inl err, new_client)
      | None \<Rightarrow>
          (case try_block e new_client of
             (r, s1) \<Rightarrow>
               (case cleanup e s1 of
                  (Inl err, s2) \<Rightarrow> (Inl err, s2)
                | (Inr _, s2) \<Rightarrow> (r, s2))))"


section \<open>The direct script (\<^verbatim>\<open>4-MCP-vs-Function_Calling/function_calling.py\<close>)\<close>

text \<open>
  The module-level list \<open>tools\<close>; \<open>add_parameters\<close> is the value under its key
  \<open>parameters\<close>.
\<close>

definition add_parameters :: json where
  "add_parameters =
     JObj [(''type'', JStr ''object''),
           (''properties'',
            JObj [(''a'', JObj [(''type'', JStr ''integer''),
                                (''description'', JStr ''First number'')]),
                  (''b'', JObj [(''type'', JStr ''integer''),
                                (''description'', JStr ''Second number'')])]),
           (''required'', JArr [JStr ''a'', JStr ''b''])]"

definition tools :: "json list" where
  "tools =
     [JObj [(''type'', JStr ''function''),
            (''function'',
             JObj [(''name'', JStr ''add''),
                   (''description'', JStr ''Add two numbers together''),
                   (''parameters'', add_parameters)])]]"

definition script_query :: string where
  "script_query = ''Calculate 25 + 17''"

definition script_model :: string where
  "script_model = ''llama-3.3-70b-versatile''"

text \<open>
  The first call passes \<open>tools\<close> and no \<open>tool_choice\<close>; the second passes neither.
\<close>

definition script_request :: chat_request where
  "script_request =
     \<lparr>req_model = script_model, req_messages = [User script_query], req_tools = Some tools,
      req_tool_choice = None\<rparr>"

definition script_final_request :: "assistant_message \<Rightarrow> tool_call \<Rightarrow> string \<Rightarrow> chat_request" where
  "script_final_request m tool_call result_text =
     \<lparr>req_model = script_model,
      req_messages = [User script_query, Assistant m, Tool (call_id tool_call) result_text],
      req_tools = None, req_tool_choice = None\<rparr>"

text \<open>
  The script from line 9 on.  It returns what it prints (the final \<open>content\<close>, or nothing
  when the Model requested no tool) and the events of the run.  Only
  \<open>tool_calls[0]\<close> is read; \<open>tool_name\<close> is assigned and not used, so \<open>add\<close> is called
  whatever the name.  \<open>add(**tool_args)\<close> raises \<open>TypeError\<close> when \<open>tool_args\<close> is not
  a dictionary.
\<close>

definition function_calling :: "env \<Rightarrow> (error + string option list) \<times> event list" where
  "function_calling e =
     (case new_groq e of
        Some err \<Rightarrow> (Inl err, [])
      | None \<Rightarrow>
          (let tr1 = [Create script_request] in
           case completions_create e [] script_request of
             Inl err \<Rightarrow> (Inl err, tr1)
           | Inr choices \<Rightarrow>
               (case first_choice choices of
                  Inl err \<Rightarrow> (Inl err, tr1)
                | Inr m \<Rightarrow>
                    (case requested m of
                       [] \<Rightarrow> (Inr [], tr1)
                     | tool_call # _ \<Rightarrow>
                         (case json_loads e (call_arguments tool_call) of
                            None \<Rightarrow> (Inl JSONDecodeError, tr1)
                          | Some (JObj tool_args) \<Rightarrow>
                              (let tr2 = tr1 @ [Add tool_args] in
                               case add e tr1 tool_args of
                                 Inl err \<Rightarrow> (Inl err, tr2)
                               | Inr result \<Rightarrow>
                                   (let req = script_final_request m tool_call (str e result);
                                        tr3 = tr2 @ [Create req] in
                                    case completions_create e tr2 req of
                                      Inl err \<Rightarrow> (Inl err, tr3)
                                    | Inr final_choices \<Rightarrow>
                                        (case first_choice final_choices of
                                           Inl err \<Rightarrow> (Inl err, tr3)
                                         | Inr final_message \<Rightarrow>
                                             (Inr [content final_message], tr3))))
                          | Some _ \<Rightarrow> (Inl TypeError, tr1))))))"


section \<open>Observations on a run\<close>

text \<open>The requests sent to the Model, and the tool invocations, in the order of the run.\<close>

definition model_calls :: "event list \<Rightarrow> chat_request list" where
  "model_calls tr = concat (map (\<lambda>ev. case ev of Create req \<Rightarrow> [req] | _ \<Rightarrow> []) tr)"

definition tool_invocations :: "event list \<Rightarrow> (string \<times> json) list" where
  "tool_invocations tr =
     concat (map (\<lambda>ev. case ev of Call_tool n a \<Rightarrow> [(n, a)] | _ \<Rightarrow> []) tr)"

definition add_invocations :: "event list \<Rightarrow> (string \<times> json) list list" where
  "add_invocations tr = concat (map (\<lambda>ev. case ev of Add kw \<Rightarrow> [kw] | _ \<Rightarrow> []) tr)"

text \<open>
  The contexts that are open after a run: entering pushes a context, leaving removes it.
\<close>

fun open_contexts :: "event list \<Rightarrow> ctx list \<Rightarrow> ctx list" where
  "open_contexts [] stack = stack"
| "open_contexts (Entered c # tr) stack = open_contexts tr (c # stack)"
| "open_contexts (Exited c # tr) stack = open_contexts tr (remove1 c stack)"
| "open_contexts (_ # tr) stack = open_contexts tr stack"

text \<open>The stack of the client holds exactly the contexts that the trace leaves open.\<close>

definition stack_ok :: "client \<Rightarrow> bool" where
  "stack_ok s \<longleftrightarrow> open_contexts (trace s) [] = exit_stack s"

text \<open>The value stored under a key of a dictionary value.\<close>

definition field :: "json \<Rightarrow> string \<Rightarrow> json option" where
  "field v k = (case v of JObj d \<Rightarrow> map_of d k | _ \<Rightarrow> None)"

definition keys :: "json \<Rightarrow> string list" where
  "keys v = (case v of JObj d \<Rightarrow> map fst d | _ \<Rightarrow> [])"


section \<open>The Tool Provider of the specification\<close>

text \<open>
  Modelled from the spec: the Tool Provider.  The module \<open>tools\<close>, from which the direct
  script imports \<open>add\<close>, and the server script that the client starts are not among the
  source files.  The specification gives the contract of \<open>call_tool(name, arguments)\<close>:
  it fails with \<open>UnknownTool\<close> if the name is not registered, fails with
  \<open>InvalidArguments\<close> if the arguments do not satisfy the descriptor's schema (a missing
  required key or a wrong type), and otherwise executes the operation and returns its
  result.  Operations are pure.  The schema is a structural description of the accepted
  arguments: the names, their types and which are required.
\<close>

text \<open>A value has a type of the schema language.\<close>

fun has_type :: "string \<Rightarrow> json \<Rightarrow> bool" where
  "has_type ty (JInt i) \<longleftrightarrow> ty = ''integer'' \<or> ty = ''number''"
| "has_type ty (JStr s) \<longleftrightarrow> ty = ''string''"
| "has_type ty (JBool b) \<longleftrightarrow> ty = ''boolean''"
| "has_type ty (JArr xs) \<longleftrightarrow> ty = ''array''"
| "has_type ty (JObj d) \<longleftrightarrow> ty = ''object''"
| "has_type ty JNull \<longleftrightarrow> ty = ''null''"

text \<open>The required names of a schema, and the names it declares with a type.\<close>

definition required_keys :: "json \<Rightarrow> string list" where
  "required_keys schema =
     (case field schema ''required'' of
        Some (JArr ks) \<Rightarrow> concat (map (\<lambda>k. case k of JStr name \<Rightarrow> [name] | _ \<Rightarrow> []) ks)
      | _ \<Rightarrow> [])"

definition declared_types :: "json \<Rightarrow> (string \<times> string) list" where
  "declared_types schema =
     (case field schema ''properties'' of
        Some (JObj ps) \<Rightarrow>
          concat (map (\<lambda>(name, p). case field p ''type'' of
                                    Some (JStr ty) \<Rightarrow> [(name, ty)]
                                  | _ \<Rightarrow> []) ps)
      | _ \<Rightarrow> [])"

text \<open>
  Arguments satisfy a schema when every required name is present and every present
  name that the schema declares holds a value of the declared type.
\<close>

definition satisfies :: "json \<Rightarrow> (string \<times> json) list \<Rightarrow> bool" where
  "satisfies schema arguments \<longleftrightarrow>
     list_all (\<lambda>name. map_of arguments name \<noteq> None) (required_keys schema) \<and>
     list_all (\<lambda>(name, ty). case map_of arguments name of
                               None \<Rightarrow> True
                             | Some v \<Rightarrow> has_type ty v) (declared_types schema)"

text \<open>
  A provider holds its registered operations, each with its descriptor, and (to
  observe that a rejected call runs nothing) the list of the operations it has executed.
\<close>

record provider =
  registered :: "(tool \<times> ((string \<times> json) list \<Rightarrow> json)) list"
  executed :: "(string \<times> (string \<times> json) list) list"

definition provider_call_tool ::
  "provider \<Rightarrow> string \<Rightarrow> (string \<times> json) list \<Rightarrow> (error + json) \<times> provider"
where
  "provider_call_tool p name arguments =
     (case find (\<lambda>(t, operation). tool_name t = name) (registered p) of
        None \<Rightarrow> (Inl UnknownTool, p)
      | Some (t, operation) \<Rightarrow>
          if satisfies (tool_inputSchema t) arguments
          then (Inr (operation arguments), p\<lparr>executed := executed p @ [(name, arguments)]\<rparr>)
          else (Inl InvalidArguments, p))"

text \<open>
  The provider of the specification's scenario registers \<open>add(a: int, b: int) \<rightarrow> int\<close>
  under the schema that the direct script declares for it.  The operation returns the
  sum; arguments that satisfy the schema hold an integer under each name.
\<close>

definition add_operation :: "(string \<times> json) list \<Rightarrow> json" where
  "add_operation arguments =
     (case (map_of arguments ''a'', map_of arguments ''b'') of
        (Some (JInt a), Some (JInt b)) \<Rightarrow> JInt (a + b)
      | _ \<Rightarrow> JNull)"

definition add_provider :: provider where
  "add_provider =
     \<lparr>registered =
        [(\<lparr>tool_name = ''add'', tool_description = Some ''Add two numbers together'',
           tool_inputSchema = add_parameters\<rparr>, add_operation)],
      executed = []\<rparr>"

text \<open>\<open>add\<close> as the direct script calls it: the provider's call of the tool \<open>add\<close>.\<close>

definition tools_add :: "(string \<times> json) list \<Rightarrow> error + json" where
  "tools_add kwargs = fst (provider_call_tool add_provider ''add'' kwargs)"


section \<open>Example runs\<close>

text \<open>
  Collaborators for the specification's scenario: the Model first asks for
  \<open>add\<close> with the arguments \<open>{"a": 25, "b": 17}\<close> and answers in text afterwards, the
  Session offers one tool and returns the text \<open>42\<close>, and nothing raises.
\<close>

definition add_arguments :: string where
  \<open>add_arguments = ''{"a": 25, "b": 17}''\<close>

definition add_call :: tool_call where
  "add_call = \<lparr>call_id = ''call_1'', call_name = ''add'', call_arguments = add_arguments\<rparr>"

definition asks_add :: assistant_message where
  "asks_add = \<lparr>content = None, tool_calls = Some [add_call]\<rparr>"

definition answers :: assistant_message where
  "answers = \<lparr>content = Some ''25 + 17 = 42'', tool_calls = None\<rparr>"

definition add_tool :: tool where
  "add_tool =
     \<lparr>tool_name = ''add'', tool_description = Some ''Add two numbers together'',
      tool_inputSchema = JObj [(''type'', JStr ''object'')]\<rparr>"

definition demo_env :: env where
  "demo_env =
     \<lparr>new_groq = None,
      enter = (\<lambda>tr c. None),
      exit_ctx = (\<lambda>tr c. None),
      initialize = (\<lambda>tr. None),
      list_tools = (\<lambda>tr. Inr [add_tool]),
      call_tool = (\<lambda>tr n a. Inr [TextContent ''42'']),
      completions_create =
        (\<lambda>tr req. if model_calls tr = [] then Inr [asks_add] else Inr [answers]),
      json_loads =
        (\<lambda>s. if s = add_arguments then Some (JObj [(''a'', JInt 25), (''b'', JInt 17)])
             else None),
      add = (\<lambda>tr kwargs. tools_add kwargs),
      str = (\<lambda>v. if v = JInt 42 then ''42'' else [])\<rparr>"

text \<open>A connected client: the state in which \<open>connect_to_server\<close> leaves \<open>new_client\<close>.\<close>

definition connected_client :: client where
  "connected_client =
     \<lparr>session = Some Client_session,
      exit_stack = [Client_session, Stdio_client ''server.py''],
      model = ''llama-3.3-70b-versatile'',
      trace = [Entered (Stdio_client ''server.py''), Entered Client_session, Initialize,
               List_tools]\<rparr>"

text \<open>The same collaborators with a Session whose \<open>call_tool\<close> raises.\<close>

definition failing_tool_env :: env where
  "failing_tool_env = demo_env\<lparr>call_tool := (\<lambda>tr n a. Inl (Raised ''McpError''))\<rparr>"

text \<open>
  Three more ways in which the one tool call can end in an exception: arguments that are
  not JSON, a result without content, and a result whose first block is not text.
\<close>

definition undecodable_env :: env where
  "undecodable_env = demo_env\<lparr>json_loads := (\<lambda>s. None)\<rparr>"

definition empty_result_env :: env where
  "empty_result_env = demo_env\<lparr>call_tool := (\<lambda>tr n a. Inr [])\<rparr>"

definition image_result_env :: env where
  "image_result_env = demo_env\<lparr>call_tool := (\<lambda>tr n a. Inr [OtherContent])\<rparr>"

text \<open>A Session that surfaces the provider's rejection of the arguments.\<close>

definition rejecting_env :: env where
  "rejecting_env = demo_env\<lparr>call_tool := (\<lambda>tr n a. Inl InvalidArguments)\<rparr>"

text \<open>A Model that asks for two tool calls in its first response.\<close>

definition second_call :: tool_call where
  "second_call = \<lparr>call_id = ''call_2'', call_name = ''add'', call_arguments = add_arguments\<rparr>"

definition asks_twice :: assistant_message where
  "asks_twice = \<lparr>content = None, tool_calls = Some [add_call, second_call]\<rparr>"

definition two_calls_env :: env where
  "two_calls_env =
     demo_env\<lparr>completions_create :=
       (\<lambda>tr req. if model_calls tr = [] then Inr [asks_twice] else Inr [answers])\<rparr>"

definition two_calls_failing_env :: env where
  "two_calls_failing_env = two_calls_env\<lparr>call_tool := (\<lambda>tr n a. Inl (Raised ''McpError''))\<rparr>"

text \<open>A Model that leaves the required argument \<open>b\<close> out.\<close>

definition short_arguments :: string where
  \<open>short_arguments = ''{"a": 25}''\<close>

definition short_call :: tool_call where
  "short_call = \<lparr>call_id = ''call_1'', call_name = ''add'', call_arguments = short_arguments\<rparr>"

definition missing_b_env :: env where
  "missing_b_env =
     demo_env\<lparr>completions_create :=
                (\<lambda>tr req. if model_calls tr = []
                   then Inr [\<lparr>content = None, tool_calls = Some [short_call]\<rparr>]
                   else Inr [answers]),
              json_loads :=
                (\<lambda>s. if s = short_arguments then Some (JObj [(''a'', JInt 25)]) else None)\<rparr>"


section \<open>Properties of the multiply endpoint\<close>

lemma handle_state: "snd (handle srv rq) = srv"
  by (cases rq) (simp_all add: handle_def)

lemma serve_eq: "serve srv rqs = (map (\<lambda>rq. fst (handle srv rq)) rqs, srv)"
proof (induction rqs)
  case Nil
  show ?case by simp
next
  case (Cons rq rqs)
  obtain rsp where h: "handle srv rq = (rsp, srv)"
    using handle_state [of srv rq] by (cases "handle srv rq") simp
  show ?case using Cons h by simp
qed

lemma multiply_ints: "multiply (JInt a) (JInt b) = Inr (JInt (a * b))"
  by (simp add: multiply_def py_mul_def)

lemma multiply_zero_left:
  "multiply (JInt 0) v =
     (case v of
        JInt n \<Rightarrow> Inr (JInt 0)
      | JBool b \<Rightarrow> Inr (JInt 0)
      | JStr s \<Rightarrow> Inr (JStr [])
      | JArr xs \<Rightarrow> Inr (JArr [])
      | JNull \<Rightarrow> Inl TypeError
      | JObj d \<Rightarrow> Inl TypeError)"
  by (cases v) (simp_all add: multiply_def py_mul_def)

lemma multiply_zero_right:
  "multiply v (JInt 0) =
     (case v of
        JInt n \<Rightarrow> Inr (JInt 0)
      | JBool b \<Rightarrow> Inr (JInt 0)
      | JStr s \<Rightarrow> Inr (JStr [])
      | JArr xs \<Rightarrow> Inr (JArr [])
      | JNull \<Rightarrow> Inl TypeError
      | JObj d \<Rightarrow> Inl TypeError)"
  by (cases v) (simp_all add: multiply_def py_mul_def)

text \<open>
  C6.  A body that maps \<open>a\<close> and \<open>b\<close> to integers is answered with status 200 and the body
  \<open>{"result": a * b}\<close>, whatever else the body holds and whatever the server answered
  before; the client then prints the success line and the product.
\<close>

theorem multiply_endpoint_product:
  assumes "map_of data ''a'' = Some (JInt a)" and "map_of data ''b'' = Some (JInt b)"
  shows "fst (handle srv (Post_multiply data)) =
           \<lparr>status_code = 200, body = Some [(''result'', JInt (a * b))]\<rparr> \<and>
         test_multiply srv (JInt a) (JInt b) = [Called_successfully, Result (JInt (a * b))]"
  using assms
  by (simp add: test_multiply_def handle_def respond_def call_multiply_def dict_get_def
      multiply_ints)

theorem multiply_endpoint_product_witness:
  "map_of [(''a'', JInt 6), (''b'', JInt 5)] ''a'' = Some (JInt 6) \<and>
   map_of [(''a'', JInt 6), (''b'', JInt 5)] ''b'' = Some (JInt 5) \<and>
   fst (handle module_state (Post_multiply [(''a'', JInt 6), (''b'', JInt 5)])) =
     \<lparr>status_code = 200, body = Some [(''result'', JInt 30)]\<rparr> \<and>
   test_multiply module_state (JInt 6) (JInt 5) = [Called_successfully, Result (JInt 30)]"
  using multiply_endpoint_product [of "[(''a'', JInt 6), (''b'', JInt 5)]" 6 5 module_state]
  by simp

text \<open>
  C7, as the claim states it, fails: a body without \<open>a\<close> whose \<open>b\<close> is \<open>null\<close> makes the
  handler raise \<open>TypeError\<close>, which nothing in the script catches.
\<close>

theorem multiply_missing_key_counterexample:
  "map_of [(''b'', JNull)] ''a'' = None \<and>
   call_multiply [(''b'', JNull)] = Inl TypeError \<and>
   status_code (fst (handle module_state (Post_multiply [(''b'', JNull)]))) = 500"
  by (simp add: handle_def respond_def call_multiply_def dict_get_def multiply_def py_mul_def)

text \<open>
  C7, amended.  For a body without \<open>a\<close> the handler multiplies the default 0 by the other
  operand, so the outcome is a function of what the body holds under \<open>b\<close>: the result is 0
  when \<open>b\<close> is absent, an integer or a boolean, the empty string when it is a string, the
  empty list when it is a list, and the handler raises \<open>TypeError\<close> when it is \<open>null\<close> or
  a dictionary.  The same holds with \<open>a\<close> and \<open>b\<close> exchanged.
\<close>

theorem multiply_missing_key:
  "(map_of data ''a'' = None \<longrightarrow>
     call_multiply data =
       (case map_of data ''b'' of
          None \<Rightarrow> Inr [(''result'', JInt 0)]
        | Some (JInt n) \<Rightarrow> Inr [(''result'', JInt 0)]
        | Some (JBool t) \<Rightarrow> Inr [(''result'', JInt 0)]
        | Some (JStr s) \<Rightarrow> Inr [(''result'', JStr [])]
        | Some (JArr xs) \<Rightarrow> Inr [(''result'', JArr [])]
        | Some JNull \<Rightarrow> Inl TypeError
        | Some (JObj d) \<Rightarrow> Inl TypeError)) \<and>
   (map_of data ''b'' = None \<longrightarrow>
     call_multiply data =
       (case map_of data ''a'' of
          None \<Rightarrow> Inr [(''result'', JInt 0)]
        | Some (JInt n) \<Rightarrow> Inr [(''result'', JInt 0)]
        | Some (JBool t) \<Rightarrow> Inr [(''result'', JInt 0)]
        | Some (JStr s) \<Rightarrow> Inr [(''result'', JStr [])]
        | Some (JArr xs) \<Rightarrow> Inr [(''result'', JArr [])]
        | Some JNull \<Rightarrow> Inl TypeError
        | Some (JObj d) \<Rightarrow> Inl TypeError))"
  by (simp add: call_multiply_def dict_get_def multiply_zero_left multiply_zero_right
      split: option.splits json.splits)

theorem multiply_missing_key_witness:
  "map_of [(''b'', JInt 5)] ''a'' = None \<and>
   call_multiply [(''b'', JInt 5)] = Inr [(''result'', JInt 0)] \<and>
   map_of [(''a'', JStr ''xy'')] ''b'' = None \<and>
   call_multiply [(''a'', JStr ''xy'')] = Inr [(''result'', JStr [])]"
  using multiply_missing_key [of "[(''b'', JInt 5)]"]
    multiply_missing_key [of "[(''a'', JStr ''xy'')]"]
  by simp

text \<open>
  C10.  The answer to a multiply request is the same wherever the request stands in
  whatever sequence of requests, and from whatever state the server starts; serving
  leaves the state of the server as it was.
\<close>

theorem multiply_endpoint_deterministic:
  assumes "i < length rqs" and "j < length rqs'"
    and "rqs ! i = Post_multiply data" and "rqs' ! j = Post_multiply data"
  shows "fst (serve srv rqs) ! i = fst (serve srv' rqs') ! j \<and>
         fst (serve srv rqs) ! i = respond (call_multiply data) \<and>
         snd (serve srv rqs) = srv"
  using assms by (simp add: serve_eq handle_def)

theorem multiply_endpoint_deterministic_witness:
  "(1::nat) < length [Get_home, Post_multiply [(''a'', JInt 6), (''b'', JInt 5)]] \<and>
   (0::nat) < length [Post_multiply [(''a'', JInt 6), (''b'', JInt 5)], Post_multiply []] \<and>
   fst (serve module_state [Get_home, Post_multiply [(''a'', JInt 6), (''b'', JInt 5)]]) ! 1 =
   fst (serve module_state [Post_multiply [(''a'', JInt 6), (''b'', JInt 5)], Post_multiply []]) ! 0"
  using multiply_endpoint_deterministic
    [of 1 "[Get_home, Post_multiply [(''a'', JInt 6), (''b'', JInt 5)]]"
        0 "[Post_multiply [(''a'', JInt 6), (''b'', JInt 5)], Post_multiply []]"
        "[(''a'', JInt 6), (''b'', JInt 5)]" module_state module_state]
  by simp

section \<open>The events of a run\<close>

lemma model_calls_simps [simp]:
  "model_calls [] = []"
  "model_calls (Create req # tr) = req # model_calls tr"
  "model_calls (Call_tool n a # tr) = model_calls tr"
  "model_calls (List_tools # tr) = model_calls tr"
  "model_calls (Initialize # tr) = model_calls tr"
  "model_calls (Entered c # tr) = model_calls tr"
  "model_calls (Enter_failed c # tr) = model_calls tr"
  "model_calls (Exited c # tr) = model_calls tr"
  "model_calls (Add kw # tr) = model_calls tr"
  "model_calls (tr @ tr') = model_calls tr @ model_calls tr'"
  by (simp_all add: model_calls_def)

lemma tool_invocations_simps [simp]:
  "tool_invocations [] = []"
  "tool_invocations (Create req # tr) = tool_invocations tr"
  "tool_invocations (Call_tool n a # tr) = (n, a) # tool_invocations tr"
  "tool_invocations (List_tools # tr) = tool_invocations tr"
  "tool_invocations (Initialize # tr) = tool_invocations tr"
  "tool_invocations (Entered c # tr) = tool_invocations tr"
  "tool_invocations (Enter_failed c # tr) = tool_invocations tr"
  "tool_invocations (Exited c # tr) = tool_invocations tr"
  "tool_invocations (Add kw # tr) = tool_invocations tr"
  "tool_invocations (tr @ tr') = tool_invocations tr @ tool_invocations tr'"
  by (simp_all add: tool_invocations_def)

lemma model_calls_map2_Call_tool [simp]: "model_calls (map2 Call_tool xs ys) = []"
  by (induction xs arbitrary: ys) (auto simp: model_calls_def split: list.splits)

lemma open_contexts_append:
  "open_contexts (tr @ tr') stack = open_contexts tr' (open_contexts tr stack)"
  by (induction tr stack rule: open_contexts.induct) simp_all

lemma open_contexts_exits: "open_contexts (map Exited stack) stack = []"
  by (induction stack) simp_all


section \<open>The tool loop and the query\<close>

text \<open>What a successful loop has done.\<close>

lemma run_tool_calls_ok:
  "run_tool_calls e tcs msgs s = (Inr msgs', s') \<Longrightarrow>
   \<exists>argss texts.
     length argss = length tcs \<and> length texts = length tcs \<and>
     map (\<lambda>tc. json_loads e (call_arguments tc)) tcs = map Some argss \<and>
     msgs' = msgs @ map2 Tool (map call_id tcs) texts \<and>
     s' = s\<lparr>trace := trace s @ map2 Call_tool (map call_name tcs) argss\<rparr>"
proof (induction tcs arbitrary: msgs s)
  case Nil
  then show ?case by simp
next
  case (Cons tc tcs)
  from Cons.prems obtain c arguments reply blocks where
    sess: "session s = Some c" and
    loads: "json_loads e (call_arguments tc) = Some arguments" and
    call: "call_tool e (trace s) (call_name tc) arguments = Inr (TextContent reply # blocks)" and
    rest: "run_tool_calls e tcs (msgs @ [Tool (call_id tc) reply])
             (s\<lparr>trace := trace s @ [Call_tool (call_name tc) arguments]\<rparr>) = (Inr msgs', s')"
    by (auto simp: Let_def split: option.splits sum.splits list.splits content_block.splits)
  from Cons.IH [OF rest] obtain argss texts where
    ih: "length argss = length tcs" "length texts = length tcs"
      "map (\<lambda>tc. json_loads e (call_arguments tc)) tcs = map Some argss"
      "msgs' = (msgs @ [Tool (call_id tc) reply]) @ map2 Tool (map call_id tcs) texts"
      "s' = (s\<lparr>trace := trace s @ [Call_tool (call_name tc) arguments]\<rparr>)
              \<lparr>trace := trace (s\<lparr>trace := trace s @ [Call_tool (call_name tc) arguments]\<rparr>) @
                 map2 Call_tool (map call_name tcs) argss\<rparr>"
    by blast
  show ?case
    apply (rule exI [of _ "arguments # argss"])
    apply (rule exI [of _ "reply # texts"])
    using ih loads by simp
qed

text \<open>Whatever the outcome, the loop only adds tool invocations, for a prefix of the requests.\<close>

lemma run_tool_calls_trace:
  "run_tool_calls e tcs msgs s = (r, s') \<Longrightarrow>
   \<exists>evs. s' = s\<lparr>trace := trace s @ evs\<rparr> \<and> model_calls evs = [] \<and>
         prefix (map fst (tool_invocations evs)) (map call_name tcs) \<and>
         (\<forall>stack. open_contexts evs stack = stack)"
proof (induction tcs arbitrary: msgs s)
  case Nil
  then show ?case by (auto intro: exI [of _ "[]"])
next
  case (Cons tc tcs)
  show ?case
  proof (cases "session s")
    case None
    with Cons.prems show ?thesis by (auto intro: exI [of _ "[]"])
  next
    case (Some c)
    show ?thesis
    proof (cases "json_loads e (call_arguments tc)")
      case None
      with Some Cons.prems show ?thesis by (auto intro: exI [of _ "[]"])
    next
      case (Some arguments)
      let ?s1 = "s\<lparr>trace := trace s @ [Call_tool (call_name tc) arguments]\<rparr>"
      show ?thesis
      proof (cases "\<exists>reply blocks. call_tool e (trace s) (call_name tc) arguments = Inr (TextContent reply # blocks)")
        case True
        then obtain reply blocks where
          call: "call_tool e (trace s) (call_name tc) arguments = Inr (TextContent reply # blocks)"
          by blast
        with Cons.prems Some \<open>session s = Some c\<close>
        have "run_tool_calls e tcs (msgs @ [Tool (call_id tc) reply]) ?s1 = (r, s')"
          by (simp add: Let_def)
        from Cons.IH [OF this] obtain evs where
          "s' = ?s1\<lparr>trace := trace ?s1 @ evs\<rparr>" "model_calls evs = []"
          "prefix (map fst (tool_invocations evs)) (map call_name tcs)"
          "\<forall>stack. open_contexts evs stack = stack"
          by blast
        then show ?thesis
          by (intro exI [of _ "Call_tool (call_name tc) arguments # evs"]) simp
      next
        case False
        with Cons.prems Some \<open>session s = Some c\<close>
        have "s' = ?s1"
          by (auto simp: Let_def split: sum.splits list.splits content_block.splits)
        then show ?thesis
          by (intro exI [of _ "[Call_tool (call_name tc) arguments]"]) simp
      qed
    qed
  qed
qed


lemma initial_request_trace [simp]:
  "initial_request (s\<lparr>trace := tr\<rparr>) q ts = initial_request s q ts"
  by (simp add: initial_request_def)

lemma final_request_trace [simp]:
  "final_request (s\<lparr>trace := tr\<rparr>) msgs ts = final_request s msgs ts"
  by (simp add: final_request_def)

lemma process_query_follow_up_shape:
  assumes run: "process_query e q s = (r, s')"
    and two: "model_calls (drop (length (trace s)) (trace s')) = [req1, req2]"
  shows "\<exists>ts m ms argss texts.
      list_tools e (trace s) = Inr ts \<and>
      req1 = initial_request s q (map groq_tool ts) \<and>
      completions_create e (trace s @ [List_tools]) req1 = Inr (m # ms) \<and>
      length argss = length (requested m) \<and> length texts = length (requested m) \<and>
      map (\<lambda>tc. json_loads e (call_arguments tc)) (requested m) = map Some argss \<and>
      drop (length (trace s)) (trace s') =
        [List_tools, Create req1] @ map2 Call_tool (map call_name (requested m)) argss @
        [Create req2] \<and>
      req2 = final_request s ([User q, Assistant m] @ map2 Tool (map call_id (requested m)) texts)
               (map groq_tool ts)"
proof (cases "session s")
  case None
  with run have "s' = s" by (simp add: process_query_def get_mcp_tools_def)
  with two show ?thesis by simp
next
  case (Some c)
  show ?thesis
  proof (cases "list_tools e (trace s)")
    case (Inl err)
    with Some run have "s' = s\<lparr>trace := trace s @ [List_tools]\<rparr>"
      by (auto simp: process_query_def get_mcp_tools_def Let_def)
    with two show ?thesis by simp
  next
    case (Inr ts)
    let ?req1 = "initial_request s q (map groq_tool ts)"
    let ?s2 = "s\<lparr>trace := trace s @ [List_tools, Create ?req1]\<rparr>"
    show ?thesis
    proof (cases "\<exists>m ms. completions_create e (trace s @ [List_tools]) ?req1 = Inr (m # ms)")
      case False
      with Some Inr run have "s' = ?s2"
        by (auto simp: process_query_def get_mcp_tools_def create_def first_choice_def Let_def
            split: sum.splits list.splits)
      with two show ?thesis by simp
    next
      case True
      then obtain m ms where
        first: "completions_create e (trace s @ [List_tools]) ?req1 = Inr (m # ms)" by blast
      show ?thesis
      proof (cases "requested m = []")
        case True
        with Some Inr first run have "s' = ?s2"
          by (auto simp: process_query_def get_mcp_tools_def create_def first_choice_def Let_def)
        with two show ?thesis by simp
      next
        case False
        obtain rr s3 where
          loop: "run_tool_calls e (requested m) [User q, Assistant m] ?s2 = (rr, s3)"
          by (cases "run_tool_calls e (requested m) [User q, Assistant m] ?s2") blast
        show ?thesis
        proof (cases rr)
          case (Inl err)
          from run_tool_calls_trace [OF loop] obtain evs where
            evs: "s3 = ?s2\<lparr>trace := trace ?s2 @ evs\<rparr>" "model_calls evs = []" by blast
          from Some Inr first False loop Inl run have "s' = s3"
            by (auto simp: process_query_def get_mcp_tools_def create_def first_choice_def Let_def)
          with two evs show ?thesis by simp
        next
          case (Inr msgs)
          from run_tool_calls_ok [OF loop [unfolded Inr]] obtain argss texts where
            ok: "length argss = length (requested m)" "length texts = length (requested m)"
              "map (\<lambda>tc. json_loads e (call_arguments tc)) (requested m) = map Some argss"
              "msgs = [User q, Assistant m] @ map2 Tool (map call_id (requested m)) texts"
              "s3 = ?s2\<lparr>trace := trace ?s2 @ map2 Call_tool (map call_name (requested m)) argss\<rparr>"
            by blast
          let ?req2 = "final_request s msgs (map groq_tool ts)"
          from Some \<open>list_tools e (trace s) = Inr ts\<close> first False loop Inr run ok(5)
          have "s' = s3\<lparr>trace := trace s3 @ [Create ?req2]\<rparr>"
            by (auto simp: process_query_def get_mcp_tools_def create_def first_choice_def Let_def
                split: sum.splits list.splits)
          with ok(5) have new: "drop (length (trace s)) (trace s') =
              [List_tools, Create ?req1] @ map2 Call_tool (map call_name (requested m)) argss @
              [Create ?req2]"
            by simp
          have mc: "model_calls (map2 Call_tool xs ys) = []" for xs ys
            by (induction xs arbitrary: ys) (auto simp: model_calls_def split: list.splits)
          from two new mc have "req1 = ?req1" "req2 = ?req2" by simp_all
          with new ok first \<open>list_tools e (trace s) = Inr ts\<close> show ?thesis
            by (intro exI [of _ ts] exI [of _ m] exI [of _ ms] exI [of _ argss] exI [of _ texts])
              simp
        qed
      qed
    qed
  qed
qed


lemma process_query_events:
  "\<exists>evs. snd (process_query e q s) = s\<lparr>trace := trace s @ evs\<rparr> \<and>
         length (model_calls evs) \<le> 2 \<and> (\<forall>stack. open_contexts evs stack = stack)"
proof -
  obtain r s' where run: "process_query e q s = (r, s')" by (cases "process_query e q s") blast
  show ?thesis
  proof (cases "session s")
    case None
    with run have "s' = s\<lparr>trace := trace s @ []\<rparr>"
      by (simp add: process_query_def get_mcp_tools_def)
    with run show ?thesis by (intro exI [of _ "[]"]) simp
  next
    case (Some c)
    show ?thesis
    proof (cases "list_tools e (trace s)")
      case (Inl err)
      with Some run have "s' = s\<lparr>trace := trace s @ [List_tools]\<rparr>"
        by (auto simp: process_query_def get_mcp_tools_def Let_def)
      with run show ?thesis by (intro exI [of _ "[List_tools]"]) simp
    next
      case (Inr ts)
      let ?req1 = "initial_request s q (map groq_tool ts)"
      let ?s2 = "s\<lparr>trace := trace s @ [List_tools, Create ?req1]\<rparr>"
      show ?thesis
      proof (cases "\<exists>m ms. completions_create e (trace s @ [List_tools]) ?req1 = Inr (m # ms)")
        case False
        with Some Inr run have "s' = ?s2"
          by (auto simp: process_query_def get_mcp_tools_def create_def first_choice_def Let_def
              split: sum.splits list.splits)
        with run show ?thesis by (intro exI [of _ "[List_tools, Create ?req1]"]) simp
      next
        case True
        then obtain m ms where
          first: "completions_create e (trace s @ [List_tools]) ?req1 = Inr (m # ms)" by blast
        obtain rr s3 where
          loop: "run_tool_calls e (requested m) [User q, Assistant m] ?s2 = (rr, s3)"
          by (cases "run_tool_calls e (requested m) [User q, Assistant m] ?s2") blast
        from run_tool_calls_trace [OF loop] obtain evs where
          evs: "s3 = ?s2\<lparr>trace := trace ?s2 @ evs\<rparr>" "model_calls evs = []"
            "\<forall>stack. open_contexts evs stack = stack" by blast
        from Some Inr first loop run
        consider "s' = ?s2" | "s' = s3" | req2 where "s' = s3\<lparr>trace := trace s3 @ [Create req2]\<rparr>"
          by (auto simp: process_query_def get_mcp_tools_def create_def first_choice_def Let_def
              split: sum.splits list.splits if_splits)
        then show ?thesis
        proof cases
          case 1
          with run show ?thesis by (intro exI [of _ "[List_tools, Create ?req1]"]) simp
        next
          case 2
          with run evs show ?thesis
            by (intro exI [of _ "[List_tools, Create ?req1] @ evs"])
              (simp add: open_contexts_append)
        next
          case 3
          with run evs show ?thesis
            by (intro exI [of _ "[List_tools, Create ?req1] @ evs @ [Create req2]"])
              (simp add: open_contexts_append)
        qed
      qed
    qed
  qed
qed

lemma process_query_model_calls:
  "length (model_calls (drop (length (trace s)) (trace (snd (process_query e q s))))) \<le> 2"
proof -
  from process_query_events [of e q s] obtain evs where
    "snd (process_query e q s) = s\<lparr>trace := trace s @ evs\<rparr>" "length (model_calls evs) \<le> 2"
    by blast
  then show ?thesis by simp
qed

lemma function_calling_model_calls:
  "length (model_calls (snd (function_calling e))) \<le> 2 \<and>
   (\<forall>r1 r2. model_calls (snd (function_calling e)) = [r1, r2] \<longrightarrow>
      req_tools r2 = None \<and> req_tool_choice r2 = None)"
  by (auto simp: function_calling_def script_final_request_def Let_def
      split: option.splits sum.splits list.splits json.splits)

lemma add_parameters_schema:
  "required_keys add_parameters = [''a'', ''b'']"
  "declared_types add_parameters = [(''a'', ''integer''), (''b'', ''integer'')]"
  by (simp_all add: required_keys_def declared_types_def add_parameters_def field_def)

lemma tools_add_ints:
  "map_of kwargs ''a'' = Some (JInt a) \<Longrightarrow> map_of kwargs ''b'' = Some (JInt b) \<Longrightarrow>
   tools_add kwargs = Inr (JInt (a + b))"
  by (simp add: tools_add_def provider_call_tool_def add_provider_def satisfies_def
      add_parameters_schema add_operation_def)


section \<open>Leaving the contexts\<close>

lemma aclose_trace: "snd (aclose e cs tr pending) = tr @ map Exited cs"
  by (induction cs arbitrary: tr pending) (simp_all split: option.splits)

lemma cleanup_state:
  "snd (cleanup e s) = s\<lparr>exit_stack := [], trace := trace s @ map Exited (exit_stack s)\<rparr>"
proof -
  obtain pending tr where ac: "aclose e (exit_stack s) (trace s) None = (pending, tr)"
    by (cases "aclose e (exit_stack s) (trace s) None") blast
  with aclose_trace [of e "exit_stack s" "trace s" None]
  have "tr = trace s @ map Exited (exit_stack s)" by simp
  with ac show ?thesis by (simp add: cleanup_def)
qed

lemma enter_async_context_ok:
  "stack_ok s \<Longrightarrow> stack_ok (snd (enter_async_context e c s))"
  by (simp add: stack_ok_def enter_async_context_def open_contexts_append split: option.splits)

lemma connect_to_server_ok:
  assumes "stack_ok s"
  shows "stack_ok (snd (connect_to_server e path s))"
proof -
  obtain r1 s1 where e1: "enter_async_context e (Stdio_client path) s = (r1, s1)"
    by (cases "enter_async_context e (Stdio_client path) s") blast
  obtain r2 s2 where e2: "enter_async_context e Client_session s1 = (r2, s2)"
    by (cases "enter_async_context e Client_session s1") blast
  have ok1: "stack_ok s1" using enter_async_context_ok [OF assms, of e "Stdio_client path"] e1 by simp
  have ok2: "stack_ok s2" using enter_async_context_ok [OF ok1, of e Client_session] e2 by simp
  show ?thesis using e1 e2 ok1 ok2
    by (auto simp: connect_to_server_def stack_ok_def open_contexts_append Let_def
        split: sum.splits option.splits)
qed

lemma process_query_ok:
  assumes "stack_ok s"
  shows "stack_ok (snd (process_query e q s))"
proof -
  from process_query_events [of e q s] obtain evs where
    "snd (process_query e q s) = s\<lparr>trace := trace s @ evs\<rparr>"
    "\<forall>stack. open_contexts evs stack = stack"
    by blast
  with assms show ?thesis by (simp add: stack_ok_def open_contexts_append)
qed

lemma try_block_ok: "stack_ok (snd (try_block e new_client))"
proof -
  have "stack_ok new_client" by (simp add: stack_ok_def new_client_def)
  from connect_to_server_ok [OF this, of e "''server.py''"] show ?thesis
    by (auto simp: try_block_def split: prod.splits sum.splits intro: process_query_ok)
qed

lemma main_state:
  "new_groq e = None \<Longrightarrow> snd (main e) = snd (cleanup e (snd (try_block e new_client)))"
  by (simp add: main_def split: prod.splits sum.splits)

lemmas demo_defs = demo_env_def add_tool_def answers_def asks_add_def add_call_def
  add_arguments_def connected_client_def


section \<open>An invocation that raises\<close>

text \<open>
  In the loop, an invocation of \<open>call_tool\<close> that raises is the last event, and its
  exception is the outcome.
\<close>

lemma run_tool_calls_raise:
  "run_tool_calls e tcs msgs s = (r, s') \<Longrightarrow>
   \<exists>evs. s' = s\<lparr>trace := trace s @ evs\<rparr> \<and>
     (\<forall>pre n a post err.
        evs = pre @ Call_tool n a # post \<and> call_tool e (trace s @ pre) n a = Inl err
        \<longrightarrow> r = Inl err \<and> post = [])"
proof (induction tcs arbitrary: msgs s)
  case Nil
  then show ?case by (auto intro: exI [of _ "[]"])
next
  case (Cons tc tcs)
  show ?case
  proof (cases "session s")
    case None
    with Cons.prems show ?thesis by (auto intro: exI [of _ "[]"])
  next
    case (Some c)
    show ?thesis
    proof (cases "json_loads e (call_arguments tc)")
      case None
      with Some Cons.prems show ?thesis by (auto intro: exI [of _ "[]"])
    next
      case (Some arguments)
      let ?ev = "Call_tool (call_name tc) arguments"
      let ?s1 = "s\<lparr>trace := trace s @ [?ev]\<rparr>"
      show ?thesis
      proof (cases "\<exists>reply blocks. call_tool e (trace s) (call_name tc) arguments =
          Inr (TextContent reply # blocks)")
        case True
        then obtain reply blocks where
          call: "call_tool e (trace s) (call_name tc) arguments = Inr (TextContent reply # blocks)"
          by blast
        with Cons.prems Some \<open>session s = Some c\<close>
        have "run_tool_calls e tcs (msgs @ [Tool (call_id tc) reply]) ?s1 = (r, s')"
          by (simp add: Let_def)
        from Cons.IH [OF this] obtain evs where
          evs: "s' = ?s1\<lparr>trace := trace ?s1 @ evs\<rparr>"
            "\<forall>pre n a post err.
               evs = pre @ Call_tool n a # post \<and> call_tool e (trace ?s1 @ pre) n a = Inl err
               \<longrightarrow> r = Inl err \<and> post = []"
          by blast
        have "r = Inl err \<and> post = []"
          if eq: "?ev # evs = pre @ Call_tool n a # post"
            and raise: "call_tool e (trace s @ pre) n a = Inl err"
          for pre n a post err
        proof (cases pre)
          case Nil
          with eq raise call show ?thesis by simp
        next
          case (Cons x pre')
          with eq have "evs = pre' @ Call_tool n a # post" "x = ?ev" by simp_all
          with raise Cons evs(2) show ?thesis by simp
        qed
        with evs(1) show ?thesis
          by (intro exI [of _ "?ev # evs"]) auto
      next
        case False
        with Cons.prems Some \<open>session s = Some c\<close>
        have s': "s' = ?s1"
          and r: "\<And>err. call_tool e (trace s) (call_name tc) arguments = Inl err \<Longrightarrow> r = Inl err"
          by (auto simp: Let_def split: sum.splits list.splits content_block.splits)
        have "r = Inl err \<and> post = []"
          if eq: "[?ev] = pre @ Call_tool n a # post"
            and raise: "call_tool e (trace s @ pre) n a = Inl err"
          for pre n a post err
        proof -
          from eq have "pre = []" "post = []" "n = call_name tc" "a = arguments"
            by (auto simp: Cons_eq_append_conv)
          with raise r show ?thesis by simp
        qed
        with s' show ?thesis
          by (intro exI [of _ "[?ev]"]) auto
      qed
    qed
  qed
qed

text \<open>The same for a whole query: nothing follows an invocation that raises.\<close>

lemma process_query_raise:
  assumes run: "process_query e q s = (r, s')"
    and eq: "drop (length (trace s)) (trace s') = pre @ Call_tool n a # post"
    and raise: "call_tool e (trace s @ pre) n a = Inl err"
  shows "r = Inl err \<and> post = []"
proof (cases "session s")
  case None
  with run have "s' = s" by (simp add: process_query_def get_mcp_tools_def)
  with eq show ?thesis by simp
next
  case (Some c)
  show ?thesis
  proof (cases "list_tools e (trace s)")
    case (Inl err')
    with Some run have "s' = s\<lparr>trace := trace s @ [List_tools]\<rparr>"
      by (auto simp: process_query_def get_mcp_tools_def Let_def)
    with eq show ?thesis by (auto simp: Cons_eq_append_conv)
  next
    case (Inr ts)
    let ?req1 = "initial_request s q (map groq_tool ts)"
    let ?s2 = "s\<lparr>trace := trace s @ [List_tools, Create ?req1]\<rparr>"
    show ?thesis
    proof (cases "\<exists>m ms. completions_create e (trace s @ [List_tools]) ?req1 = Inr (m # ms)")
      case False
      with Some Inr run have "s' = ?s2"
        by (auto simp: process_query_def get_mcp_tools_def create_def first_choice_def Let_def
            split: sum.splits list.splits)
      with eq show ?thesis by (auto simp: Cons_eq_append_conv)
    next
      case True
      then obtain m ms where
        first: "completions_create e (trace s @ [List_tools]) ?req1 = Inr (m # ms)" by blast
      obtain rr s3 where
        loop: "run_tool_calls e (requested m) [User q, Assistant m] ?s2 = (rr, s3)"
        by (cases "run_tool_calls e (requested m) [User q, Assistant m] ?s2") blast
      from run_tool_calls_raise [OF loop] obtain evs where
        evs: "s3 = ?s2\<lparr>trace := trace ?s2 @ evs\<rparr>"
          "\<forall>pre n a post err.
             evs = pre @ Call_tool n a # post \<and> call_tool e (trace ?s2 @ pre) n a = Inl err
             \<longrightarrow> rr = Inl err \<and> post = []"
        by blast
      from Some Inr first loop run
      consider "s' = ?s2" | err' where "s' = s3" "r = Inl err'" "rr = Inl err'"
        | req2 where "s' = s3\<lparr>trace := trace s3 @ [Create req2]\<rparr>" "\<exists>msgs. rr = Inr msgs"
        by (auto simp: process_query_def get_mcp_tools_def create_def first_choice_def Let_def
            split: sum.splits list.splits if_splits)
      then show ?thesis
      proof cases
        case 1
        with eq show ?thesis by (auto simp: Cons_eq_append_conv)
      next
        case 2
        with eq evs(1) have "List_tools # Create ?req1 # evs = pre @ Call_tool n a # post"
          by simp
        then obtain pre' where "pre = List_tools # Create ?req1 # pre'"
          "evs = pre' @ Call_tool n a # post"
          by (auto simp: Cons_eq_append_conv)
        with raise evs(2) 2 show ?thesis by simp
      next
        case 3
        with eq evs(1)
        have "List_tools # Create ?req1 # evs @ [Create req2] = pre @ Call_tool n a # post"
          by simp
        then obtain pre' where pre: "pre = List_tools # Create ?req1 # pre'"
          and rest: "evs @ [Create req2] = pre' @ Call_tool n a # post"
          by (auto simp: Cons_eq_append_conv)
        from rest obtain post' where "post = post' @ [Create req2]"
          "evs = pre' @ Call_tool n a # post'"
          by (cases post rule: rev_cases) auto
        with raise evs(2) pre 3 show ?thesis by auto
      qed
    qed
  qed
qed


section \<open>The round trip of a query\<close>

text \<open>
  C1, as the claim states it, fails: the first response requests exactly one tool call,
  the Session's \<open>call_tool\<close> raises, and \<open>process_query\<close> ends with that exception after
  one Model call.
\<close>

theorem one_tool_call_counterexample:
  "completions_create failing_tool_env (trace connected_client @ [List_tools])
     (initial_request connected_client ''Calculate 25 + 17'' [groq_tool add_tool]) =
     Inr [asks_add] \<and>
   tool_calls asks_add = Some [add_call] \<and>
   fst (process_query failing_tool_env ''Calculate 25 + 17'' connected_client) =
     Inl (Raised ''McpError'') \<and>
   model_calls (drop (length (trace connected_client))
      (trace (snd (process_query failing_tool_env ''Calculate 25 + 17'' connected_client)))) =
     [initial_request connected_client ''Calculate 25 + 17'' [groq_tool add_tool]]"
  by (simp add: process_query_def get_mcp_tools_def create_def first_choice_def requested_def
      Let_def failing_tool_env_def demo_defs initial_request_def final_request_def)

text \<open>
  C1, amended.  Take a connected client on which listing the tools succeeds and a first
  response that requests exactly one tool call.  When its arguments decode, the Session
  returns a result whose first block is text, and the second Model call returns a
  choice, \<open>process_query\<close> returns the content of that second response, and the run
  consists of the listing, the first Model call, one tool invocation and the second
  Model call: exactly two Model calls and one call of the tool.  When the tool execution
  raises, that exception is the outcome and no second Model call is made: for arguments
  that are not JSON the run ends after the first Model call with \<open>JSONDecodeError\<close>; for a
  \<open>call_tool\<close> that raises it ends after the invocation with that exception; for a result
  without content it ends there with \<open>IndexError\<close>, and for a result whose first block is
  not text with \<open>AttributeError\<close>.
\<close>

theorem process_query_one_tool_call:
  assumes "session s = Some c"
    and "list_tools e (trace s) = Inr ts"
    and "req1 = initial_request s q (map groq_tool ts)"
    and "completions_create e (trace s @ [List_tools]) req1 = Inr (m # ms)"
    and "tool_calls m = Some [tc]"
  shows
    "(json_loads e (call_arguments tc) = Some args \<and>
      call_tool e (trace s @ [List_tools, Create req1]) (call_name tc) args =
        Inr (TextContent reply # blocks) \<and>
      req2 = final_request s [User q, Assistant m, Tool (call_id tc) reply] (map groq_tool ts) \<and>
      completions_create e (trace s @ [List_tools, Create req1, Call_tool (call_name tc) args])
        req2 = Inr (m2 # ms2)
      \<longrightarrow> process_query e q s =
            (Inr (content m2),
             s\<lparr>trace := trace s @ [List_tools, Create req1, Call_tool (call_name tc) args,
                                    Create req2]\<rparr>) \<and>
          model_calls (drop (length (trace s)) (trace (snd (process_query e q s)))) =
            [req1, req2] \<and>
          tool_invocations (drop (length (trace s)) (trace (snd (process_query e q s)))) =
            [(call_name tc, args)]) \<and>
     (json_loads e (call_arguments tc) = None
      \<longrightarrow> process_query e q s =
            (Inl JSONDecodeError, s\<lparr>trace := trace s @ [List_tools, Create req1]\<rparr>)) \<and>
     (json_loads e (call_arguments tc) = Some args \<and>
      call_tool e (trace s @ [List_tools, Create req1]) (call_name tc) args = Inl err
      \<longrightarrow> process_query e q s =
            (Inl err,
             s\<lparr>trace := trace s @ [List_tools, Create req1, Call_tool (call_name tc) args]\<rparr>)) \<and>
     (json_loads e (call_arguments tc) = Some args \<and>
      call_tool e (trace s @ [List_tools, Create req1]) (call_name tc) args = Inr []
      \<longrightarrow> process_query e q s =
            (Inl IndexError,
             s\<lparr>trace := trace s @ [List_tools, Create req1, Call_tool (call_name tc) args]\<rparr>)) \<and>
     (json_loads e (call_arguments tc) = Some args \<and>
      call_tool e (trace s @ [List_tools, Create req1]) (call_name tc) args =
        Inr (OtherContent # blocks)
      \<longrightarrow> process_query e q s =
            (Inl AttributeError,
             s\<lparr>trace := trace s @ [List_tools, Create req1, Call_tool (call_name tc) args]\<rparr>))"
proof -
  have ok: "process_query e q s =
      (Inr (content m2),
       s\<lparr>trace := trace s @ [List_tools, Create req1, Call_tool (call_name tc) args,
                              Create req2]\<rparr>)"
    if "json_loads e (call_arguments tc) = Some args"
      "call_tool e (trace s @ [List_tools, Create req1]) (call_name tc) args =
        Inr (TextContent reply # blocks)"
      "req2 = final_request s [User q, Assistant m, Tool (call_id tc) reply] (map groq_tool ts)"
      "completions_create e (trace s @ [List_tools, Create req1, Call_tool (call_name tc) args])
        req2 = Inr (m2 # ms2)"
    using assms that
    by (simp add: process_query_def get_mcp_tools_def create_def first_choice_def requested_def
        Let_def)
  have undecodable: "process_query e q s =
      (Inl JSONDecodeError, s\<lparr>trace := trace s @ [List_tools, Create req1]\<rparr>)"
    if "json_loads e (call_arguments tc) = None"
    using assms that
    by (simp add: process_query_def get_mcp_tools_def create_def first_choice_def requested_def
        Let_def)
  have raising: "process_query e q s =
      (Inl err,
       s\<lparr>trace := trace s @ [List_tools, Create req1, Call_tool (call_name tc) args]\<rparr>)"
    if "json_loads e (call_arguments tc) = Some args"
      "call_tool e (trace s @ [List_tools, Create req1]) (call_name tc) args = Inl err"
    using assms that
    by (simp add: process_query_def get_mcp_tools_def create_def first_choice_def requested_def
        Let_def)
  have empty: "process_query e q s =
      (Inl IndexError,
       s\<lparr>trace := trace s @ [List_tools, Create req1, Call_tool (call_name tc) args]\<rparr>)"
    if "json_loads e (call_arguments tc) = Some args"
      "call_tool e (trace s @ [List_tools, Create req1]) (call_name tc) args = Inr []"
    using assms that
    by (simp add: process_query_def get_mcp_tools_def create_def first_choice_def requested_def
        Let_def)
  have other: "process_query e q s =
      (Inl AttributeError,
       s\<lparr>trace := trace s @ [List_tools, Create req1, Call_tool (call_name tc) args]\<rparr>)"
    if "json_loads e (call_arguments tc) = Some args"
      "call_tool e (trace s @ [List_tools, Create req1]) (call_name tc) args =
        Inr (OtherContent # blocks)"
    using assms that
    by (simp add: process_query_def get_mcp_tools_def create_def first_choice_def requested_def
        Let_def)
  have ok_full: "process_query e q s =
        (Inr (content m2),
         s\<lparr>trace := trace s @ [List_tools, Create req1, Call_tool (call_name tc) args,
                                Create req2]\<rparr>) \<and>
      model_calls (drop (length (trace s)) (trace (snd (process_query e q s)))) =
        [req1, req2] \<and>
      tool_invocations (drop (length (trace s)) (trace (snd (process_query e q s)))) =
        [(call_name tc, args)]"
    if "json_loads e (call_arguments tc) = Some args"
      "call_tool e (trace s @ [List_tools, Create req1]) (call_name tc) args =
        Inr (TextContent reply # blocks)"
      "req2 = final_request s [User q, Assistant m, Tool (call_id tc) reply] (map groq_tool ts)"
      "completions_create e (trace s @ [List_tools, Create req1, Call_tool (call_name tc) args])
        req2 = Inr (m2 # ms2)"
    using ok [OF that] by simp
  show ?thesis
    using ok_full undecodable raising empty other by blast
qed

theorem process_query_one_tool_call_witness:
  "process_query demo_env ''Calculate 25 + 17'' connected_client =
     (Inr (Some ''25 + 17 = 42''),
      connected_client\<lparr>trace := trace connected_client @
        [List_tools,
         Create (initial_request connected_client ''Calculate 25 + 17'' [groq_tool add_tool]),
         Call_tool ''add'' (JObj [(''a'', JInt 25), (''b'', JInt 17)]),
         Create (final_request connected_client
           [User ''Calculate 25 + 17'', Assistant asks_add, Tool ''call_1'' ''42'']
           [groq_tool add_tool])]\<rparr>) \<and>
   process_query undecodable_env ''Calculate 25 + 17'' connected_client =
     (Inl JSONDecodeError,
      connected_client\<lparr>trace := trace connected_client @
        [List_tools,
         Create (initial_request connected_client ''Calculate 25 + 17''
           [groq_tool add_tool])]\<rparr>) \<and>
   process_query failing_tool_env ''Calculate 25 + 17'' connected_client =
     (Inl (Raised ''McpError''),
      connected_client\<lparr>trace := trace connected_client @
        [List_tools,
         Create (initial_request connected_client ''Calculate 25 + 17'' [groq_tool add_tool]),
         Call_tool ''add'' (JObj [(''a'', JInt 25), (''b'', JInt 17)])]\<rparr>) \<and>
   process_query empty_result_env ''Calculate 25 + 17'' connected_client =
     (Inl IndexError,
      connected_client\<lparr>trace := trace connected_client @
        [List_tools,
         Create (initial_request connected_client ''Calculate 25 + 17'' [groq_tool add_tool]),
         Call_tool ''add'' (JObj [(''a'', JInt 25), (''b'', JInt 17)])]\<rparr>) \<and>
   process_query image_result_env ''Calculate 25 + 17'' connected_client =
     (Inl AttributeError,
      connected_client\<lparr>trace := trace connected_client @
        [List_tools,
         Create (initial_request connected_client ''Calculate 25 + 17'' [groq_tool add_tool]),
         Call_tool ''add'' (JObj [(''a'', JInt 25), (''b'', JInt 17)])]\<rparr>)"
proof -
  let ?q = "''Calculate 25 + 17''"
  let ?req1 = "initial_request connected_client ?q [groq_tool add_tool]"
  let ?req2 = "final_request connected_client
      [User ?q, Assistant asks_add, Tool (call_id add_call) ''42''] (map groq_tool [add_tool])"
  let ?args = "JObj [(''a'', JInt 25), (''b'', JInt 17)]"
  have first: "session connected_client = Some Client_session"
    "list_tools env (trace connected_client) = Inr [add_tool]"
    "?req1 = initial_request connected_client ?q (map groq_tool [add_tool])"
    "completions_create env (trace connected_client @ [List_tools]) ?req1 = Inr (asks_add # [])"
    "tool_calls asks_add = Some [add_call]"
    if "list_tools env = list_tools demo_env"
      "completions_create env = completions_create demo_env" for env
    using that by (simp_all add: demo_env_def connected_client_def asks_add_def)
  have loads: "json_loads env (call_arguments add_call) = Some ?args"
    if "json_loads env = json_loads demo_env" for env
    using that by (simp add: demo_env_def add_call_def)
  have names: "call_name add_call = ''add''" "call_id add_call = ''call_1''"
    "content answers = Some ''25 + 17 = 42''"
    by (simp_all add: add_call_def answers_def)

  have 1: "json_loads demo_env (call_arguments add_call) = Some ?args \<and>
      call_tool demo_env (trace connected_client @ [List_tools, Create ?req1])
        (call_name add_call) ?args = Inr (TextContent ''42'' # []) \<and>
      ?req2 = final_request connected_client
        [User ?q, Assistant asks_add, Tool (call_id add_call) ''42''] (map groq_tool [add_tool]) \<and>
      completions_create demo_env
        (trace connected_client @ [List_tools, Create ?req1, Call_tool (call_name add_call) ?args])
        ?req2 = Inr (answers # [])"
    using loads [of demo_env] by (simp add: demo_env_def)
  note t1 = process_query_one_tool_call [OF first [OF refl refl],
      where args = ?args and reply = "''42''" and blocks = "[]" and ?req2.0 = ?req2
        and ?m2.0 = answers and ?ms2.0 = "[]"]
  have a: "process_query demo_env ?q connected_client =
     (Inr (content answers),
      connected_client\<lparr>trace := trace connected_client @
        [List_tools, Create ?req1, Call_tool (call_name add_call) ?args, Create ?req2]\<rparr>)"
    using t1 [THEN conjunct1, THEN mp, OF 1, THEN conjunct1] .

  have 2: "json_loads undecodable_env (call_arguments add_call) = None"
    by (simp add: undecodable_env_def)
  have e2: "list_tools undecodable_env = list_tools demo_env"
    "completions_create undecodable_env = completions_create demo_env"
    by (simp_all add: undecodable_env_def)
  note t2 = process_query_one_tool_call [OF first [OF e2]]
  have b: "process_query undecodable_env ?q connected_client =
     (Inl JSONDecodeError,
      connected_client\<lparr>trace := trace connected_client @ [List_tools, Create ?req1]\<rparr>)"
    using t2 [THEN conjunct2, THEN conjunct1, THEN mp, OF 2] .

  have 3: "json_loads failing_tool_env (call_arguments add_call) = Some ?args \<and>
      call_tool failing_tool_env (trace connected_client @ [List_tools, Create ?req1])
        (call_name add_call) ?args = Inl (Raised ''McpError'')"
    using loads [of failing_tool_env] by (simp add: failing_tool_env_def)
  have e3: "list_tools failing_tool_env = list_tools demo_env"
    "completions_create failing_tool_env = completions_create demo_env"
    by (simp_all add: failing_tool_env_def)
  note t3 = process_query_one_tool_call [OF first [OF e3],
      where args = ?args and err = "Raised ''McpError''"]
  have c: "process_query failing_tool_env ?q connected_client =
     (Inl (Raised ''McpError''),
      connected_client\<lparr>trace := trace connected_client @
        [List_tools, Create ?req1, Call_tool (call_name add_call) ?args]\<rparr>)"
    using t3 [THEN conjunct2, THEN conjunct2, THEN conjunct1, THEN mp, OF 3] .

  have 4: "json_loads empty_result_env (call_arguments add_call) = Some ?args \<and>
      call_tool empty_result_env (trace connected_client @ [List_tools, Create ?req1])
        (call_name add_call) ?args = Inr []"
    using loads [of empty_result_env] by (simp add: empty_result_env_def)
  have e4: "list_tools empty_result_env = list_tools demo_env"
    "completions_create empty_result_env = completions_create demo_env"
    by (simp_all add: empty_result_env_def)
  note t4 = process_query_one_tool_call [OF first [OF e4],
      where args = ?args]
  have d: "process_query empty_result_env ?q connected_client =
     (Inl IndexError,
      connected_client\<lparr>trace := trace connected_client @
        [List_tools, Create ?req1, Call_tool (call_name add_call) ?args]\<rparr>)"
    using t4 [THEN conjunct2, THEN conjunct2, THEN conjunct2, THEN conjunct1, THEN mp, OF 4] .

  have 5: "json_loads image_result_env (call_arguments add_call) = Some ?args \<and>
      call_tool image_result_env (trace connected_client @ [List_tools, Create ?req1])
        (call_name add_call) ?args = Inr (OtherContent # [])"
    using loads [of image_result_env] by (simp add: image_result_env_def)
  have e5: "list_tools image_result_env = list_tools demo_env"
    "completions_create image_result_env = completions_create demo_env"
    by (simp_all add: image_result_env_def)
  note t5 = process_query_one_tool_call [OF first [OF e5],
      where args = ?args and blocks = "[]"]
  have e: "process_query image_result_env ?q connected_client =
     (Inl AttributeError,
      connected_client\<lparr>trace := trace connected_client @
        [List_tools, Create ?req1, Call_tool (call_name add_call) ?args]\<rparr>)"
    using t5 [THEN conjunct2, THEN conjunct2, THEN conjunct2, THEN conjunct2, THEN mp, OF 5] .

  from a b c d e show ?thesis by (simp only: names list.map)
qed

text \<open>
  The direct script makes the same round trip: with one requested call whose arguments
  decode to a dictionary and an \<open>add\<close> that returns, it makes two Model calls and one call
  of \<open>add\<close>, and prints the content of the second response.
\<close>

lemma function_calling_round_trip:
  assumes "new_groq e = None"
    and "completions_create e [] script_request = Inr (m # ms)"
    and "requested m = tc # tcs"
    and "json_loads e (call_arguments tc) = Some (JObj kwargs)"
    and "add e [Create script_request] kwargs = Inr result"
    and "req2 = script_final_request m tc (str e result)"
    and "completions_create e [Create script_request, Add kwargs] req2 = Inr (m2 # ms2)"
  shows "function_calling e =
           (Inr [content m2], [Create script_request, Add kwargs, Create req2])"
  using assms by (simp add: function_calling_def first_choice_def Let_def)


section \<open>Tool results before the follow-up call\<close>

text \<open>
  C2, as the claim states it, fails: the Model requests two calls, the first invocation
  raises, and the run ends with one invocation, no tool message and no follow-up call.
\<close>

theorem tool_results_counterexample:
  "completions_create two_calls_failing_env (trace connected_client @ [List_tools])
     (initial_request connected_client ''Calculate 25 + 17'' [groq_tool add_tool]) =
     Inr [asks_twice] \<and>
   requested asks_twice = [add_call, second_call] \<and>
   fst (process_query two_calls_failing_env ''Calculate 25 + 17'' connected_client) =
     Inl (Raised ''McpError'') \<and>
   tool_invocations (drop (length (trace connected_client))
      (trace (snd (process_query two_calls_failing_env ''Calculate 25 + 17'' connected_client)))) =
     [(''add'', JObj [(''a'', JInt 25), (''b'', JInt 17)])]"
  by (simp add: process_query_def get_mcp_tools_def create_def first_choice_def requested_def
      Let_def two_calls_failing_env_def two_calls_env_def asks_twice_def second_call_def
      demo_defs initial_request_def final_request_def)

text \<open>
  C2, amended.  Whenever a run of \<open>process_query\<close> makes two Model calls, the events
  between them are one invocation of the Session's \<open>call_tool\<close> per requested call, in the
  order of the first response and with the decoded arguments of each, and the messages
  of the second call are the user message, the assistant message and then exactly one
  tool message per requested call, in the same order, each carrying the id of its call.
  Whenever an invocation raises, its exception is the outcome of the query and the
  invocation is the last event of the run: no later request is invoked and no follow-up
  Model call is made.
\<close>

theorem tool_results_before_follow_up:
  assumes "process_query e q s = (r, s')"
  shows
    "(model_calls (drop (length (trace s)) (trace s')) = [req1, req2] \<longrightarrow>
      (\<exists>ts m ms argss texts.
         list_tools e (trace s) = Inr ts \<and>
         req1 = initial_request s q (map groq_tool ts) \<and>
         completions_create e (trace s @ [List_tools]) req1 = Inr (m # ms) \<and>
         length argss = length (requested m) \<and> length texts = length (requested m) \<and>
         map (\<lambda>tc. json_loads e (call_arguments tc)) (requested m) = map Some argss \<and>
         drop (length (trace s)) (trace s') =
           [List_tools, Create req1] @ map2 Call_tool (map call_name (requested m)) argss @
           [Create req2] \<and>
         req_messages req2 =
           [User q, Assistant m] @ map2 Tool (map call_id (requested m)) texts)) \<and>
     (drop (length (trace s)) (trace s') = pre @ Call_tool n a # post \<and>
      call_tool e (trace s @ pre) n a = Inl err
      \<longrightarrow> r = Inl err \<and> post = [])"
proof -
  have follow_up: "\<exists>ts m ms argss texts.
         list_tools e (trace s) = Inr ts \<and>
         req1 = initial_request s q (map groq_tool ts) \<and>
         completions_create e (trace s @ [List_tools]) req1 = Inr (m # ms) \<and>
         length argss = length (requested m) \<and> length texts = length (requested m) \<and>
         map (\<lambda>tc. json_loads e (call_arguments tc)) (requested m) = map Some argss \<and>
         drop (length (trace s)) (trace s') =
           [List_tools, Create req1] @ map2 Call_tool (map call_name (requested m)) argss @
           [Create req2] \<and>
         req_messages req2 =
           [User q, Assistant m] @ map2 Tool (map call_id (requested m)) texts"
    if two: "model_calls (drop (length (trace s)) (trace s')) = [req1, req2]"
  proof -
    from process_query_follow_up_shape [OF assms two] obtain ts m ms argss texts where
      "list_tools e (trace s) = Inr ts"
      "req1 = initial_request s q (map groq_tool ts)"
      "completions_create e (trace s @ [List_tools]) req1 = Inr (m # ms)"
      "length argss = length (requested m)" "length texts = length (requested m)"
      "map (\<lambda>tc. json_loads e (call_arguments tc)) (requested m) = map Some argss"
      "drop (length (trace s)) (trace s') =
          [List_tools, Create req1] @ map2 Call_tool (map call_name (requested m)) argss @
          [Create req2]"
      "req2 = final_request s ([User q, Assistant m] @ map2 Tool (map call_id (requested m)) texts)
                 (map groq_tool ts)"
      by blast
    then show ?thesis
      by (intro exI [of _ ts] exI [of _ m] exI [of _ ms] exI [of _ argss] exI [of _ texts])
        (simp add: final_request_def)
  qed
  have raise: "r = Inl err \<and> post = []"
    if "drop (length (trace s)) (trace s') = pre @ Call_tool n a # post"
      "call_tool e (trace s @ pre) n a = Inl err"
    using process_query_raise [OF assms that] .
  show ?thesis
  proof (intro conjI impI)
    assume "model_calls (drop (length (trace s)) (trace s')) = [req1, req2]"
    then show "\<exists>ts m ms argss texts.
         list_tools e (trace s) = Inr ts \<and>
         req1 = initial_request s q (map groq_tool ts) \<and>
         completions_create e (trace s @ [List_tools]) req1 = Inr (m # ms) \<and>
         length argss = length (requested m) \<and> length texts = length (requested m) \<and>
         map (\<lambda>tc. json_loads e (call_arguments tc)) (requested m) = map Some argss \<and>
         drop (length (trace s)) (trace s') =
           [List_tools, Create req1] @ map2 Call_tool (map call_name (requested m)) argss @
           [Create req2] \<and>
         req_messages req2 =
           [User q, Assistant m] @ map2 Tool (map call_id (requested m)) texts"
      by (rule follow_up)
  next
    assume h: "drop (length (trace s)) (trace s') = pre @ Call_tool n a # post \<and>
      call_tool e (trace s @ pre) n a = Inl err"
    from raise [OF h [THEN conjunct1] h [THEN conjunct2]]
    show "r = Inl err" and "post = []" by simp_all
  qed
qed

theorem tool_results_before_follow_up_witness:
  "model_calls (drop (length (trace connected_client))
      (trace (snd (process_query two_calls_env ''Calculate 25 + 17'' connected_client)))) =
     [initial_request connected_client ''Calculate 25 + 17'' [groq_tool add_tool],
      final_request connected_client
        [User ''Calculate 25 + 17'', Assistant asks_twice, Tool ''call_1'' ''42'',
         Tool ''call_2'' ''42'']
        [groq_tool add_tool]] \<and>
   (\<exists>m ms argss texts.
      completions_create two_calls_env (trace connected_client @ [List_tools])
        (initial_request connected_client ''Calculate 25 + 17'' [groq_tool add_tool]) =
        Inr (m # ms) \<and>
      length argss = length (requested m) \<and> length texts = length (requested m) \<and>
      map (\<lambda>tc. json_loads two_calls_env (call_arguments tc)) (requested m) = map Some argss \<and>
      drop (length (trace connected_client))
        (trace (snd (process_query two_calls_env ''Calculate 25 + 17'' connected_client))) =
        [List_tools,
         Create (initial_request connected_client ''Calculate 25 + 17'' [groq_tool add_tool])] @
        map2 Call_tool (map call_name (requested m)) argss @
        [Create (final_request connected_client
           [User ''Calculate 25 + 17'', Assistant asks_twice, Tool ''call_1'' ''42'',
            Tool ''call_2'' ''42'']
           [groq_tool add_tool])] \<and>
      req_messages (final_request connected_client
           [User ''Calculate 25 + 17'', Assistant asks_twice, Tool ''call_1'' ''42'',
            Tool ''call_2'' ''42'']
           [groq_tool add_tool]) =
        [User ''Calculate 25 + 17'', Assistant m] @ map2 Tool (map call_id (requested m)) texts) \<and>
   drop (length (trace connected_client))
     (trace (snd (process_query two_calls_failing_env ''Calculate 25 + 17'' connected_client))) =
     [List_tools,
      Create (initial_request connected_client ''Calculate 25 + 17'' [groq_tool add_tool])] @
     Call_tool ''add'' (JObj [(''a'', JInt 25), (''b'', JInt 17)]) # [] \<and>
   fst (process_query two_calls_failing_env ''Calculate 25 + 17'' connected_client) =
     Inl (Raised ''McpError'')"
proof -
  let ?q = "''Calculate 25 + 17''"
  let ?req1 = "initial_request connected_client ?q [groq_tool add_tool]"
  let ?req2 = "final_request connected_client
        [User ?q, Assistant asks_twice, Tool ''call_1'' ''42'', Tool ''call_2'' ''42'']
        [groq_tool add_tool]"
  let ?args = "JObj [(''a'', JInt 25), (''b'', JInt 17)]"
  let ?run = "process_query two_calls_env ?q connected_client"
  let ?fail = "process_query two_calls_failing_env ?q connected_client"
  have run: "?run = (fst ?run, snd ?run)" by simp
  have two: "model_calls (drop (length (trace connected_client)) (trace (snd ?run))) =
      [?req1, ?req2]"
    by (simp add: process_query_def get_mcp_tools_def create_def first_choice_def requested_def
        Let_def two_calls_env_def asks_twice_def second_call_def demo_defs
        initial_request_def final_request_def)
  from tool_results_before_follow_up [OF run, where ?req1.0 = ?req1 and ?req2.0 = ?req2,
      THEN conjunct1, THEN mp, OF two]
  have part1: "\<exists>m ms argss texts.
      completions_create two_calls_env (trace connected_client @ [List_tools]) ?req1 =
        Inr (m # ms) \<and>
      length argss = length (requested m) \<and> length texts = length (requested m) \<and>
      map (\<lambda>tc. json_loads two_calls_env (call_arguments tc)) (requested m) = map Some argss \<and>
      drop (length (trace connected_client)) (trace (snd ?run)) =
        [List_tools, Create ?req1] @ map2 Call_tool (map call_name (requested m)) argss @
        [Create ?req2] \<and>
      req_messages ?req2 =
        [User ?q, Assistant m] @ map2 Tool (map call_id (requested m)) texts"
    by blast
  have fail: "?fail = (fst ?fail, snd ?fail)" by simp
  have events: "drop (length (trace connected_client)) (trace (snd ?fail)) =
      [List_tools, Create ?req1] @ Call_tool ''add'' ?args # []"
    by (simp add: process_query_def get_mcp_tools_def create_def first_choice_def requested_def
        Let_def two_calls_failing_env_def two_calls_env_def asks_twice_def second_call_def
        demo_defs initial_request_def final_request_def)
  have raises: "call_tool two_calls_failing_env
      (trace connected_client @ [List_tools, Create ?req1]) ''add'' ?args =
      Inl (Raised ''McpError'')"
    by (simp add: two_calls_failing_env_def)
  from tool_results_before_follow_up [OF fail, THEN conjunct2, THEN mp, OF conjI,
      OF events raises]
  have part2: "fst ?fail = Inl (Raised ''McpError'')" by simp
  from two part1 events part2 show ?thesis by blast
qed

text \<open>
  The direct script reads \<open>tool_calls[0]\<close> only.  When the Model requests two calls it calls
  \<open>add\<close> once and sends one tool message, for the first request.
\<close>

lemma function_calling_first_call_only:
  "requested asks_twice = [add_call, second_call] \<and>
   add_invocations (snd (function_calling two_calls_env)) =
     [[(''a'', JInt 25), (''b'', JInt 17)]] \<and>
   model_calls (snd (function_calling two_calls_env)) =
     [script_request, script_final_request asks_twice add_call ''42''] \<and>
   req_messages (script_final_request asks_twice add_call ''42'') =
     [User script_query, Assistant asks_twice, Tool ''call_1'' ''42'']"
  by (simp add: function_calling_def first_choice_def requested_def Let_def two_calls_env_def
      asks_twice_def second_call_def demo_defs tools_add_ints add_invocations_def
      script_final_request_def)


section \<open>The follow-up call and the bound on Model calls\<close>

text \<open>
  C3, as the claim states it, fails: in a run of the direct script in which the tool
  was called, the follow-up request carries no \<open>tool_choice\<close> (and no \<open>tools\<close>), so further
  tool requests are not disabled explicitly.
\<close>

theorem follow_up_counterexample:
  "add_invocations (snd (function_calling demo_env)) = [[(''a'', JInt 25), (''b'', JInt 17)]] \<and>
   model_calls (snd (function_calling demo_env)) =
     [script_request, script_final_request asks_add add_call ''42''] \<and>
   req_tool_choice (script_final_request asks_add add_call ''42'') = None \<and>
   req_tools (script_final_request asks_add add_call ''42'') = None"
  by (simp add: function_calling_def first_choice_def requested_def demo_defs Let_def
      tools_add_ints add_invocations_def script_final_request_def)

text \<open>
  C3, amended.  Every run of \<open>process_query\<close> makes at most two Model calls, and the second,
  when there is one, passes \<open>tool_choice = "none"\<close>.  Every run of the direct script makes
  at most two Model calls, and the second, when there is one, passes neither \<open>tools\<close> nor
  \<open>tool_choice\<close>.
\<close>

theorem at_most_two_model_calls:
  "length (model_calls (drop (length (trace s)) (trace (snd (process_query e q s))))) \<le> 2 \<and>
   (\<forall>r1 r2. model_calls (drop (length (trace s)) (trace (snd (process_query e q s)))) = [r1, r2]
      \<longrightarrow> req_tool_choice r2 = Some ''none'') \<and>
   length (model_calls (snd (function_calling e))) \<le> 2 \<and>
   (\<forall>r1 r2. model_calls (snd (function_calling e)) = [r1, r2] \<longrightarrow>
      req_tools r2 = None \<and> req_tool_choice r2 = None)"
proof -
  have "req_tool_choice r2 = Some ''none''"
    if "model_calls (drop (length (trace s)) (trace (snd (process_query e q s)))) = [r1, r2]"
    for r1 r2
  proof -
    have "process_query e q s = (fst (process_query e q s), snd (process_query e q s))" by simp
    from process_query_follow_up_shape [OF this that] show ?thesis
      by (auto simp: final_request_def)
  qed
  with process_query_model_calls [of s e q] function_calling_model_calls [of e]
  show ?thesis by blast
qed

theorem at_most_two_model_calls_witness:
  "model_calls (drop (length (trace connected_client))
      (trace (snd (process_query demo_env ''Calculate 25 + 17'' connected_client)))) =
     [initial_request connected_client ''Calculate 25 + 17'' [groq_tool add_tool],
      final_request connected_client
        [User ''Calculate 25 + 17'', Assistant asks_add, Tool ''call_1'' ''42'']
        [groq_tool add_tool]] \<and>
   req_tool_choice (final_request connected_client
        [User ''Calculate 25 + 17'', Assistant asks_add, Tool ''call_1'' ''42'']
        [groq_tool add_tool]) = Some ''none'' \<and>
   model_calls (snd (function_calling demo_env)) =
     [script_request, script_final_request asks_add add_call ''42''] \<and>
   req_tools (script_final_request asks_add add_call ''42'') = None \<and>
   req_tool_choice (script_final_request asks_add add_call ''42'') = None"
proof -
  have one: "model_calls (drop (length (trace connected_client))
      (trace (snd (process_query demo_env ''Calculate 25 + 17'' connected_client)))) =
     [initial_request connected_client ''Calculate 25 + 17'' [groq_tool add_tool],
      final_request connected_client
        [User ''Calculate 25 + 17'', Assistant asks_add, Tool ''call_1'' ''42'']
        [groq_tool add_tool]]"
    by (simp add: process_query_def get_mcp_tools_def create_def first_choice_def requested_def
        Let_def demo_defs initial_request_def final_request_def)
  have two: "model_calls (snd (function_calling demo_env)) =
     [script_request, script_final_request asks_add add_call ''42'']"
    by (simp add: function_calling_def first_choice_def requested_def demo_defs Let_def
        tools_add_ints)
  from at_most_two_model_calls [of connected_client demo_env "''Calculate 25 + 17''"] one two
  show ?thesis by blast
qed


section \<open>Arguments that do not fit the schema\<close>

lemma not_satisfies:
  "name \<in> set (required_keys schema) \<Longrightarrow> map_of arguments name = None \<Longrightarrow>
   \<not> satisfies schema arguments"
  "(name, ty) \<in> set (declared_types schema) \<Longrightarrow> map_of arguments name = Some v \<Longrightarrow>
   \<not> has_type ty v \<Longrightarrow> \<not> satisfies schema arguments"
  by (auto simp: satisfies_def list_all_iff split: prod.splits option.splits dest!: bspec)

lemma tools_add_rejects:
  assumes "map_of kwargs ''a'' = None \<or> map_of kwargs ''b'' = None \<or>
    (map_of kwargs ''a'' = Some v \<and> (\<forall>i. v \<noteq> JInt i)) \<or>
    (map_of kwargs ''b'' = Some v \<and> (\<forall>i. v \<noteq> JInt i))"
  shows "provider_call_tool add_provider ''add'' kwargs = (Inl InvalidArguments, add_provider)"
proof -
  have "\<not> has_type ''integer'' v" if "\<forall>i. v \<noteq> JInt i" for v
    using that by (cases v) simp_all
  with assms have "\<not> satisfies add_parameters kwargs"
    by (auto simp: satisfies_def add_parameters_schema)
  then show ?thesis
    by (simp add: provider_call_tool_def add_provider_def)
qed

text \<open>
  C4, against the Tool Provider of the specification.  Arguments that miss a required
  key of the schema, or hold a value of another type than the schema declares, do not
  satisfy the schema, and \<open>call_tool\<close> with such arguments fails with
  \<open>InvalidArguments\<close> and leaves the provider as it was: no operation is executed.  So
  does \<open>add\<close> for arguments without \<open>a\<close> or \<open>b\<close> or with a value that is not an
  integer.  Both orchestrators hand that failure on and do nothing after it: the direct
  script ends with it after the first Model call, and in \<open>process_query\<close> it is the
  outcome of the query and the rejected invocation is the last event of the run.
\<close>

theorem invalid_arguments_rejected:
  "((name \<in> set (required_keys schema) \<and> map_of arguments name = None) \<or>
    ((name, ty) \<in> set (declared_types schema) \<and> map_of arguments name = Some v \<and>
     \<not> has_type ty v)
    \<longrightarrow> \<not> satisfies schema arguments) \<and>
   (find (\<lambda>(t, operation). tool_name t = name) (registered p) = Some (t, operation) \<and>
    \<not> satisfies (tool_inputSchema t) arguments
    \<longrightarrow> provider_call_tool p name arguments = (Inl InvalidArguments, p)) \<and>
   (map_of kwargs ''a'' = None \<or> map_of kwargs ''b'' = None \<or>
    (map_of kwargs ''a'' = Some v \<and> (\<forall>i. v \<noteq> JInt i)) \<or>
    (map_of kwargs ''b'' = Some v \<and> (\<forall>i. v \<noteq> JInt i))
    \<longrightarrow> tools_add kwargs = Inl InvalidArguments \<and>
        snd (provider_call_tool add_provider ''add'' kwargs) = add_provider) \<and>
   (new_groq e = None \<and> completions_create e [] script_request = Inr (m # ms) \<and>
    requested m = tc # tcs \<and> json_loads e (call_arguments tc) = Some (JObj kwargs) \<and>
    add e [Create script_request] kwargs = Inl InvalidArguments
    \<longrightarrow> function_calling e = (Inl InvalidArguments, [Create script_request, Add kwargs])) \<and>
   (process_query e q s = (r, s') \<and>
    drop (length (trace s)) (trace s') = pre @ Call_tool n a # post \<and>
    call_tool e (trace s @ pre) n a = Inl InvalidArguments
    \<longrightarrow> r = Inl InvalidArguments \<and> post = [])"
proof (intro conjI impI)
  assume "(name \<in> set (required_keys schema) \<and> map_of arguments name = None) \<or>
    ((name, ty) \<in> set (declared_types schema) \<and> map_of arguments name = Some v \<and>
     \<not> has_type ty v)"
  then show "\<not> satisfies schema arguments"
    using not_satisfies by blast
next
  assume "find (\<lambda>(t, operation). tool_name t = name) (registered p) = Some (t, operation) \<and>
    \<not> satisfies (tool_inputSchema t) arguments"
  then show "provider_call_tool p name arguments = (Inl InvalidArguments, p)"
    by (simp add: provider_call_tool_def)
next
  assume h: "map_of kwargs ''a'' = None \<or> map_of kwargs ''b'' = None \<or>
    (map_of kwargs ''a'' = Some v \<and> (\<forall>i. v \<noteq> JInt i)) \<or>
    (map_of kwargs ''b'' = Some v \<and> (\<forall>i. v \<noteq> JInt i))"
  from tools_add_rejects [OF h]
  show "tools_add kwargs = Inl InvalidArguments"
    and "snd (provider_call_tool add_provider ''add'' kwargs) = add_provider"
    by (simp_all add: tools_add_def)
next
  assume "new_groq e = None \<and> completions_create e [] script_request = Inr (m # ms) \<and>
    requested m = tc # tcs \<and> json_loads e (call_arguments tc) = Some (JObj kwargs) \<and>
    add e [Create script_request] kwargs = Inl InvalidArguments"
  then show "function_calling e = (Inl InvalidArguments, [Create script_request, Add kwargs])"
    by (simp add: function_calling_def first_choice_def Let_def)
next
  assume h: "process_query e q s = (r, s') \<and>
    drop (length (trace s)) (trace s') = pre @ Call_tool n a # post \<and>
    call_tool e (trace s @ pre) n a = Inl InvalidArguments"
  from process_query_raise [OF h [THEN conjunct1] h [THEN conjunct2, THEN conjunct1]
      h [THEN conjunct2, THEN conjunct2]]
  show "r = Inl InvalidArguments" and "post = []" by simp_all
qed

theorem invalid_arguments_rejected_witness:
  "\<not> satisfies add_parameters [(''a'', JInt 25)] \<and>
   provider_call_tool add_provider ''add'' [(''a'', JInt 25)] =
     (Inl InvalidArguments, add_provider) \<and>
   tools_add [(''a'', JStr ''25''), (''b'', JInt 17)] = Inl InvalidArguments \<and>
   function_calling missing_b_env =
     (Inl InvalidArguments, [Create script_request, Add [(''a'', JInt 25)]]) \<and>
   fst (process_query rejecting_env ''Calculate 25 + 17'' connected_client) =
     Inl InvalidArguments"
proof -
  let ?short = "[(''a'', JInt 25)]"
  let ?descriptor = "\<lparr>tool_name = ''add'', tool_description = Some ''Add two numbers together'',
      tool_inputSchema = add_parameters\<rparr>"
  note t = invalid_arguments_rejected
  have 1: "(''b'' \<in> set (required_keys add_parameters) \<and> map_of ?short ''b'' = None) \<or>
      ((''b'', ty) \<in> set (declared_types add_parameters) \<and> map_of ?short ''b'' = Some v \<and>
       \<not> has_type ty v)" for ty v
    by (simp add: add_parameters_schema)
  have a: "\<not> satisfies add_parameters ?short"
    using t [where name = "''b''" and schema = add_parameters and arguments = ?short,
        THEN conjunct1, THEN mp, OF 1] .
  have 2: "find (\<lambda>(t, operation). tool_name t = ''add'') (registered add_provider) =
        Some (?descriptor, add_operation) \<and>
      \<not> satisfies (tool_inputSchema ?descriptor) ?short"
    using a by (simp add: add_provider_def)
  have b: "provider_call_tool add_provider ''add'' ?short = (Inl InvalidArguments, add_provider)"
    using t [THEN conjunct2, THEN conjunct1, THEN mp, OF 2] .
  have 3: "map_of [(''a'', JStr ''25''), (''b'', JInt 17)] ''a'' = None \<or>
      map_of [(''a'', JStr ''25''), (''b'', JInt 17)] ''b'' = None \<or>
      (map_of [(''a'', JStr ''25''), (''b'', JInt 17)] ''a'' = Some (JStr ''25'') \<and>
       (\<forall>i. JStr ''25'' \<noteq> JInt i)) \<or>
      (map_of [(''a'', JStr ''25''), (''b'', JInt 17)] ''b'' = Some (JStr ''25'') \<and>
       (\<forall>i. JStr ''25'' \<noteq> JInt i))"
    by simp
  have c: "tools_add [(''a'', JStr ''25''), (''b'', JInt 17)] = Inl InvalidArguments"
    using t [THEN conjunct2, THEN conjunct2, THEN conjunct1, THEN mp, OF 3, THEN conjunct1] .
  have 4: "new_groq missing_b_env = None \<and>
      completions_create missing_b_env [] script_request =
        Inr (\<lparr>content = None, tool_calls = Some [short_call]\<rparr> # []) \<and>
      requested \<lparr>content = None, tool_calls = Some [short_call]\<rparr> = short_call # [] \<and>
      json_loads missing_b_env (call_arguments short_call) = Some (JObj ?short) \<and>
      add missing_b_env [Create script_request] ?short = Inl InvalidArguments"
    using b by (simp add: missing_b_env_def demo_env_def requested_def short_call_def tools_add_def)
  have d: "function_calling missing_b_env =
      (Inl InvalidArguments, [Create script_request, Add ?short])"
    using t [THEN conjunct2, THEN conjunct2, THEN conjunct2, THEN conjunct1, THEN mp, OF 4] .
  let ?run = "process_query rejecting_env ''Calculate 25 + 17'' connected_client"
  let ?req1 = "initial_request connected_client ''Calculate 25 + 17'' [groq_tool add_tool]"
  have 5: "?run = (fst ?run, snd ?run) \<and>
      drop (length (trace connected_client)) (trace (snd ?run)) =
        [List_tools, Create ?req1] @
        Call_tool ''add'' (JObj [(''a'', JInt 25), (''b'', JInt 17)]) # [] \<and>
      call_tool rejecting_env (trace connected_client @ [List_tools, Create ?req1]) ''add''
        (JObj [(''a'', JInt 25), (''b'', JInt 17)]) = Inl InvalidArguments"
    by (simp add: process_query_def get_mcp_tools_def create_def first_choice_def requested_def
        Let_def rejecting_env_def demo_defs initial_request_def final_request_def)
  have e: "fst ?run = Inl InvalidArguments"
    using t [THEN conjunct2, THEN conjunct2, THEN conjunct2, THEN conjunct2, THEN mp, OF 5,
        THEN conjunct1] .
  from a b c d e show ?thesis by blast
qed


section \<open>A client without a session\<close>

text \<open>
  While \<open>self.session\<close> is \<open>None\<close>, \<open>get_mcp_tools\<close> and \<open>process_query\<close> raise
  \<open>AttributeError\<close> and make no call: the client and its trace stay as they were.  A
  \<open>connect_to_server\<close> that returns has entered the pipe and the session, set
  \<open>self.session\<close>, and called \<open>initialize\<close> before \<open>list_tools\<close>.  What a method of the
  Session does between the assignment of \<open>self.session\<close> and the end of \<open>initialize\<close> is
  decided by the Session, which is a parameter here.
\<close>

lemma no_session_attribute_error:
  "(session s = None \<longrightarrow>
      get_mcp_tools e s = (Inl AttributeError, s) \<and>
      process_query e q s = (Inl AttributeError, s)) \<and>
   (fst (connect_to_server e path s) = Inr () \<longrightarrow>
      snd (connect_to_server e path s) =
        s\<lparr>session := Some Client_session,
          exit_stack := Client_session # Stdio_client path # exit_stack s,
          trace := trace s @ [Entered (Stdio_client path), Entered Client_session, Initialize,
                              List_tools]\<rparr>)"
  by (auto simp: get_mcp_tools_def process_query_def connect_to_server_def
      enter_async_context_def Let_def split: option.splits sum.splits)


section \<open>The tool schemas sent to the Model\<close>

text \<open>
  C8.  The dictionary built for a tool has the two keys \<open>type\<close> and \<open>function\<close>; \<open>type\<close> is
  \<open>"function"\<close>, and \<open>function\<close> is a dictionary of the three keys \<open>name\<close>,
  \<open>description\<close> and \<open>parameters\<close> holding the tool's name, its description (\<open>None\<close> when
  the tool has none) and its input schema, unchanged.  On a connected client
  \<open>get_mcp_tools\<close> returns these dictionaries for the tools that the Session lists, in the
  Session's order.
\<close>

theorem groq_tool_schema:
  "field (groq_tool t) ''type'' = Some (JStr ''function'') \<and>
   keys (groq_tool t) = [''type'', ''function''] \<and>
   (\<exists>f. field (groq_tool t) ''function'' = Some f \<and>
        keys f = [''name'', ''description'', ''parameters''] \<and>
        field f ''name'' = Some (JStr (tool_name t)) \<and>
        field f ''description'' =
          Some (case tool_description t of None \<Rightarrow> JNull | Some d \<Rightarrow> JStr d) \<and>
        field f ''parameters'' = Some (tool_inputSchema t)) \<and>
   (session s = Some c \<and> list_tools e (trace s) = Inr ts \<longrightarrow>
      fst (get_mcp_tools e s) = Inr (map groq_tool ts))"
  by (simp add: groq_tool_def field_def keys_def get_mcp_tools_def Let_def)

theorem groq_tool_schema_witness:
  "session connected_client = Some Client_session \<and>
   list_tools demo_env (trace connected_client) = Inr [add_tool] \<and>
   fst (get_mcp_tools demo_env connected_client) =
     Inr [JObj [(''type'', JStr ''function''),
                (''function'',
                 JObj [(''name'', JStr ''add''),
                       (''description'', JStr ''Add two numbers together''),
                       (''parameters'', JObj [(''type'', JStr ''object'')])])]]"
proof -
  have h: "session connected_client = Some Client_session \<and>
      list_tools demo_env (trace connected_client) = Inr [add_tool]"
    by (simp add: demo_defs)
  from groq_tool_schema [of add_tool connected_client Client_session demo_env "[add_tool]"] h
  have "fst (get_mcp_tools demo_env connected_client) = Inr (map groq_tool [add_tool])"
    by blast
  with h show ?thesis by (simp add: groq_tool_def add_tool_def)
qed


section \<open>Teardown on every exit path\<close>

text \<open>
  C9.  However \<open>main\<close> ends, no context is left on the exit stack and every context that
  was entered has been left: the trace leaves no context open.  When the client has
  been constructed, the last events of the run are those of \<open>cleanup\<close>, which leaves the
  contexts open after the \<open>try\<close> block, the session before the pipe, whether the block
  returned or raised.  When the constructor of the client raises, nothing has been
  entered.
\<close>

theorem main_tears_down:
  "exit_stack (snd (main e)) = [] \<and> open_contexts (trace (snd (main e))) [] = [] \<and>
   (new_groq e = None \<longrightarrow>
      trace (snd (main e)) =
        trace (snd (try_block e new_client)) @
        map Exited (open_contexts (trace (snd (try_block e new_client))) []))"
proof (cases "new_groq e")
  case (Some err)
  then show ?thesis by (simp add: main_def new_client_def)
next
  case None
  have ok: "open_contexts (trace (snd (try_block e new_client))) [] =
      exit_stack (snd (try_block e new_client))"
    using try_block_ok [of e] by (simp add: stack_ok_def)
  show ?thesis
    using None ok
    by (simp add: main_state cleanup_state open_contexts_append open_contexts_exits)
qed

theorem main_tears_down_witness:
  "new_groq failing_tool_env = None \<and>
   fst (main failing_tool_env) = Inl (Raised ''McpError'') \<and>
   trace (snd (main failing_tool_env)) =
     trace (snd (try_block failing_tool_env new_client)) @
       [Exited Client_session, Exited (Stdio_client ''server.py'')]"
proof -
  have h: "new_groq failing_tool_env = None" by (simp add: failing_tool_env_def demo_env_def)
  have r: "fst (main failing_tool_env) = Inl (Raised ''McpError'')"
    by (simp add: main_def cleanup_def try_block_def connect_to_server_def
        enter_async_context_def process_query_def get_mcp_tools_def create_def first_choice_def
        requested_def new_client_def failing_tool_env_def demo_defs initial_request_def
        final_request_def Let_def)
  have o: "open_contexts (trace (snd (try_block failing_tool_env new_client))) [] =
      [Client_session, Stdio_client ''server.py'']"
    by (simp add: try_block_def connect_to_server_def enter_async_context_def process_query_def
        get_mcp_tools_def create_def first_choice_def requested_def new_client_def
        failing_tool_env_def demo_defs initial_request_def final_request_def Let_def)
  from main_tears_down [of failing_tool_env] h o r show ?thesis by simp
qed

end
